theory Spec2Isabelle
  imports Complex_Main
begin

section \<open>Machine arithmetic of the target\<close>

text \<open>
  \<^verbatim>\<open>mvm.cpp\<close> is an Arduino sketch for an AVR board (it includes \<^verbatim>\<open>EEPROM.h\<close> and
  reads the analog pins \<^verbatim>\<open>A2\<close>, \<^verbatim>\<open>A3\<close>). On that target \<^verbatim>\<open>int\<close> has 16 bits,
  \<^verbatim>\<open>long\<close> has 32 bits, and \<^verbatim>\<open>float\<close> and \<^verbatim>\<open>double\<close> are both IEEE-754 binary32.

  Integers are modelled by \<^typ>\<open>int\<close>. The variables \<^verbatim>\<open>currentSetting\<close>, \<^verbatim>\<open>currentScreen\<close> and
  \<^verbatim>\<open>menuItem\<close> only ever hold values between \<open>-1\<close> and 4 (lemma \<open>reachable_inv\<close> below), so
  their assignments are written without wrap-around; a statement about a state with
  other values speaks of these unbounded integers. The operations that the C++ standard
  leaves undefined (a subscript outside an array, an integer division by zero, a
  \<^verbatim>\<open>float\<close> that does not fit the integer it is converted to, an overflow in \<^verbatim>\<open>long\<close>
  arithmetic) return an \<open>error\<close>.
\<close>

datatype error =
    Index_out_of_bounds int   \<comment> \<open>array subscript outside the declared bound\<close>
  | Division_by_zero          \<comment> \<open>integer division with a zero divisor\<close>
  | Conversion_overflow       \<comment> \<open>floating value not representable in the integer type\<close>
  | Signed_overflow           \<comment> \<open>signed integer arithmetic leaving the type's range\<close>

definition INT_MIN :: int where "INT_MIN = - 32768"
definition INT_MAX :: int where "INT_MAX = 32767"
definition LONG_MIN :: int where "LONG_MIN = - 2147483648"
definition LONG_MAX :: int where "LONG_MAX = 2147483647"

text \<open>C++ \<^verbatim>\<open>/\<close> and \<^verbatim>\<open>%\<close> on integers truncate towards zero; the remainder has the sign of
  the dividend.\<close>

definition c_quot :: "int \<Rightarrow> int \<Rightarrow> int" where
  "c_quot a b = sgn a * sgn b * (\<bar>a\<bar> div \<bar>b\<bar>)"

definition c_rem :: "int \<Rightarrow> int \<Rightarrow> int" where
  "c_rem a b = sgn a * (\<bar>a\<bar> mod \<bar>b\<bar>)"

subsection \<open>binary32 floating point\<close>

text \<open>
  A \<^verbatim>\<open>float\<close> is a NaN, an infinity or a finite value. Finite values are carried as the
  real number they denote; every arithmetic result is rounded to the nearest binary32
  value, ties to even (\<open>round_f32\<close>). The two zeros are identified: the sketch never
  divides by a variable and never inspects the sign of a zero, so they behave alike.
\<close>

datatype float32 = NaN | PInf | MInf | Fin real

text \<open>\<open>f32_exponent fuel e a\<close> climbs from \<open>e\<close> to the largest exponent \<open>e'\<close> with
  \<open>2^e' \<le> a\<close>, at most \<open>fuel\<close> steps. Started at the smallest normal exponent \<open>-126\<close>
  with 253 steps it stops at 127 at the latest.\<close>

fun f32_exponent :: "nat \<Rightarrow> int \<Rightarrow> real \<Rightarrow> int" where
  "f32_exponent 0 e a = e"
| "f32_exponent (Suc n) e a = (if 2 powi (e + 1) \<le> a then f32_exponent n (e + 1) a else e)"

definition round_half_even :: "real \<Rightarrow> int" where
  "round_half_even q =
     (let f = \<lfloor>q\<rfloor>; d = q - of_int f
      in if d < 1 / 2 then f else if 1 / 2 < d then f + 1 else if even f then f else f + 1)"

definition round_f32 :: "real \<Rightarrow> float32" where
  "round_f32 x =
     (let a = \<bar>x\<bar>;
          e = f32_exponent 253 (- 126) a;
          ulp = 2 powi (e - 23);
          r = of_int (round_half_even (a / ulp)) * ulp
      in if 2 powi 128 \<le> r then (if 0 < x then PInf else MInf)
         else Fin (if x < 0 then - r else r))"

definition isnan :: "float32 \<Rightarrow> bool" where
  "isnan x = (case x of NaN \<Rightarrow> True | _ \<Rightarrow> False)"

fun fneg :: "float32 \<Rightarrow> float32" where
  "fneg NaN = NaN"
| "fneg PInf = MInf"
| "fneg MInf = PInf"
| "fneg (Fin a) = Fin (- a)"

fun fadd :: "float32 \<Rightarrow> float32 \<Rightarrow> float32" where
  "fadd NaN _ = NaN"
| "fadd _ NaN = NaN"
| "fadd PInf MInf = NaN"
| "fadd MInf PInf = NaN"
| "fadd PInf _ = PInf"
| "fadd _ PInf = PInf"
| "fadd MInf _ = MInf"
| "fadd _ MInf = MInf"
| "fadd (Fin a) (Fin b) = round_f32 (a + b)"

definition fsub :: "float32 \<Rightarrow> float32 \<Rightarrow> float32" where
  "fsub x y = fadd x (fneg y)"

text \<open>The sign of a non-NaN value: \<open>-1\<close>, \<open>0\<close> or \<open>1\<close>.\<close>

fun fsgn :: "float32 \<Rightarrow> int" where
  "fsgn NaN = 0"
| "fsgn PInf = 1"
| "fsgn MInf = - 1"
| "fsgn (Fin a) = (if a < 0 then - 1 else if a = 0 then 0 else 1)"

definition inf_of_sign :: "int \<Rightarrow> float32" where
  "inf_of_sign s = (if s = 0 then NaN else if 0 < s then PInf else MInf)"

fun fmul :: "float32 \<Rightarrow> float32 \<Rightarrow> float32" where
  "fmul NaN _ = NaN"
| "fmul _ NaN = NaN"
| "fmul (Fin a) (Fin b) = round_f32 (a * b)"
| "fmul x y = inf_of_sign (fsgn x * fsgn y)"

fun fdiv :: "float32 \<Rightarrow> float32 \<Rightarrow> float32" where
  "fdiv NaN _ = NaN"
| "fdiv _ NaN = NaN"
| "fdiv (Fin a) (Fin b) =
     (if b = 0 then inf_of_sign (fsgn (Fin a)) else round_f32 (a / b))"
| "fdiv (Fin a) _ = Fin 0"
| "fdiv x (Fin b) = inf_of_sign (fsgn x * (if b < 0 then - 1 else 1))"
| "fdiv _ _ = NaN"

text \<open>The comparison \<^verbatim>\<open>x < y\<close>: false as soon as one side is a NaN.\<close>

fun flt :: "float32 \<Rightarrow> float32 \<Rightarrow> bool" where
  "flt NaN _ = False"
| "flt _ NaN = False"
| "flt (Fin a) (Fin b) = (a < b)"
| "flt _ MInf = False"
| "flt MInf _ = True"
| "flt PInf _ = False"
| "flt (Fin a) PInf = True"

text \<open>\<^verbatim>\<open>x <= y\<close>, again false on a NaN.\<close>

definition fle :: "float32 \<Rightarrow> float32 \<Rightarrow> bool" where
  "fle x y = (\<not> isnan x \<and> \<not> isnan y \<and> \<not> flt y x)"

text \<open>Conversions. An integer becomes the nearest \<^verbatim>\<open>float\<close>. A \<^verbatim>\<open>float\<close> becomes an
  integer by dropping the fraction; the behaviour is undefined when the result does not
  fit the integer type, which covers the NaN and the infinities.\<close>

definition int_to_float :: "int \<Rightarrow> float32" where
  "int_to_float i = round_f32 (of_int i)"

definition truncate_real :: "real \<Rightarrow> int" where
  "truncate_real r = (if 0 \<le> r then \<lfloor>r\<rfloor> else \<lceil>r\<rceil>)"

definition float_to_int :: "float32 \<Rightarrow> error + int" where
  "float_to_int x =
     (case x of
        Fin r \<Rightarrow> if INT_MIN \<le> truncate_real r \<and> truncate_real r \<le> INT_MAX then Inr (truncate_real r)
                 else Inl Conversion_overflow
      | _ \<Rightarrow> Inl Conversion_overflow)"

definition float_to_long :: "float32 \<Rightarrow> error + int" where
  "float_to_long x =
     (case x of
        Fin r \<Rightarrow> if LONG_MIN \<le> truncate_real r \<and> truncate_real r \<le> LONG_MAX then Inr (truncate_real r)
                 else Inl Conversion_overflow
      | _ \<Rightarrow> Inl Conversion_overflow)"

text \<open>\<^verbatim>\<open>long\<close> to \<^verbatim>\<open>int\<close> keeps the low 16 bits (two's complement).\<close>

definition long_to_int :: "int \<Rightarrow> int" where
  "long_to_int v = (v + 32768) mod 65536 - 32768"

definition and_then :: "error + 'a \<Rightarrow> ('a \<Rightarrow> error + 'b) \<Rightarrow> error + 'b" where
  "and_then r f = (case r of Inl e \<Rightarrow> Inl e | Inr v \<Rightarrow> f v)"

definition in_long :: "int \<Rightarrow> error + int" where
  "in_long v = (if LONG_MIN \<le> v \<and> v \<le> LONG_MAX then Inr v else Inl Signed_overflow)"

text \<open>
  \<^verbatim>\<open>map\<close> belongs to the Arduino core, not to \<^verbatim>\<open>mvm.cpp\<close>; the sketch calls it for the
  progress bar. The core defines it on \<^verbatim>\<open>long\<close> as
  \<^verbatim>\<open>return (x - in_min) * (out_max - out_min) / (in_max - in_min) + out_min;\<close>
  with no test of the divisor.
\<close>

definition arduino_map :: "int \<Rightarrow> int \<Rightarrow> int \<Rightarrow> int \<Rightarrow> int \<Rightarrow> error + int" where
  "arduino_map x in_min in_max out_min out_max =
     and_then (in_long (x - in_min)) (\<lambda>a.
     and_then (in_long (out_max - out_min)) (\<lambda>b.
     and_then (in_long (a * b)) (\<lambda>c.
     and_then (in_long (in_max - in_min)) (\<lambda>d.
     if d = 0 then Inl Division_by_zero
     else and_then (in_long (c_quot c d)) (\<lambda>q. in_long (q + out_min))))))"

section \<open>The sketch's state\<close>

record WaterTankSetting =
  minHeight :: float32
  diameter :: float32
  targetCapacity :: float32

text \<open>
  The globals of the sketch, and the two things it keeps in the EEPROM: the five
  profile records at offsets \<open>i * sizeof(WaterTankSetting)\<close> and the active index behind
  them. The regions do not overlap, so the EEPROM is modelled by what is stored in each.
  An array of five records is a function on the indices; every subscript is checked
  against the bound 5 (\<open>settings_at\<close>).
\<close>

record mvm =
  settings :: "int \<Rightarrow> WaterTankSetting"
  currentSetting :: int
  currentScreen :: int
  menuItem :: int
  eeprom_settings :: "int \<Rightarrow> WaterTankSetting"
  eeprom_currentSetting :: int

abbreviation (input) MAIN_SCREEN :: int where "MAIN_SCREEN \<equiv> 0"
abbreviation (input) MENU_SCREEN :: int where "MENU_SCREEN \<equiv> 1"
abbreviation (input) VIEW_SCREEN :: int where "VIEW_SCREEN \<equiv> 2"
abbreviation (input) SETTINGS_SCREEN :: int where "SETTINGS_SCREEN \<equiv> 3"
abbreviation (input) LOAD_SCREEN :: int where "LOAD_SCREEN \<equiv> 4"

text \<open>The literal \<^verbatim>\<open>3.14159265359\<close> of the macro \<^verbatim>\<open>PI\<close>, as the compiler stores it.\<close>

definition PI :: float32 where
  "PI = round_f32 3.14159265359"

text \<open>The pressed buttons, as \<^verbatim>\<open>handleButtons\<close> reads them at the start of a cycle.\<close>

record buttons =
  up :: bool
  down :: bool
  left :: bool
  right :: bool
  select :: bool

definition settings_at :: "mvm \<Rightarrow> int \<Rightarrow> error + WaterTankSetting" where
  "settings_at m i =
     (if 0 \<le> i \<and> i < 5 then Inr (settings m i) else Inl (Index_out_of_bounds i))"

subsection \<open>Profile store\<close>

definition loadSettings :: "mvm \<Rightarrow> mvm" where
  "loadSettings m =
     fold (\<lambda>i m. m\<lparr>settings := (settings m)(i := eeprom_settings m i)\<rparr>) [0, 1, 2, 3, 4] m"

definition saveSettings :: "int \<Rightarrow> mvm \<Rightarrow> mvm" where
  "saveSettings index m =
     (if 0 \<le> index \<and> index < 5
      then m\<lparr>eeprom_settings := (eeprom_settings m)(index := settings m index)\<rparr>
      else m)"

text \<open>The globals as their initialisers leave them, over a given EEPROM content, and
  the sketch's \<^verbatim>\<open>setup()\<close> (here \<open>setup_mvm\<close>) run on them.\<close>

definition power_on :: "(int \<Rightarrow> WaterTankSetting) \<Rightarrow> int \<Rightarrow> mvm" where
  "power_on stored_settings stored_index =
     \<lparr>settings = (\<lambda>i. \<lparr>minHeight = Fin 0, diameter = Fin 0, targetCapacity = Fin 0\<rparr>),
      currentSetting = 0,
      currentScreen = MAIN_SCREEN,
      menuItem = 0,
      eeprom_settings = stored_settings,
      eeprom_currentSetting = stored_index\<rparr>"

definition setup_mvm :: "mvm \<Rightarrow> mvm" where
  "setup_mvm m =
     (let m1 = m\<lparr>currentSetting := eeprom_currentSetting m\<rparr>;
          m2 = (if currentSetting m1 < 0 \<or> 5 \<le> currentSetting m1
                then m1\<lparr>currentSetting := 0, eeprom_currentSetting := 0\<rparr>
                else m1)
      in loadSettings m2)"

subsection \<open>Button handling\<close>

definition executeMenuAction :: "mvm \<Rightarrow> mvm" where
  "executeMenuAction m =
     (let m1 = (if menuItem m = 0 then m\<lparr>currentScreen := MAIN_SCREEN\<rparr>
                else if menuItem m = 1 then m\<lparr>currentScreen := VIEW_SCREEN\<rparr>
                else if menuItem m = 2 then m\<lparr>currentScreen := SETTINGS_SCREEN\<rparr>
                else if menuItem m = 3 then m\<lparr>currentScreen := LOAD_SCREEN\<rparr>
                else m)
      in m1\<lparr>menuItem := - 1\<rparr>)"

text \<open>The second argument is the value the call of \<^verbatim>\<open>pingSonar()\<close> returns.\<close>

definition adjustSetting :: "bool \<Rightarrow> float32 \<Rightarrow> mvm \<Rightarrow> error + mvm" where
  "adjustSetting increase sonar m =
     (let adjustment = (if increase then Fin 10 else Fin (- 10)) in
      if menuItem m = 0 then
        and_then (settings_at m (currentSetting m)) (\<lambda>p.
          Inr (m\<lparr>settings := (settings m)(currentSetting m := p\<lparr>minHeight := sonar\<rparr>)\<rparr>))
      else if menuItem m = 1 then
        and_then (settings_at m (currentSetting m)) (\<lambda>p.
          let d0 = (if isnan (diameter p) then Fin 0 else diameter p);
              d1 = fadd d0 adjustment;
              d2 = (if flt d1 (Fin 0) then Fin 0 else d1)
          in Inr (m\<lparr>settings := (settings m)(currentSetting m := p\<lparr>diameter := d2\<rparr>)\<rparr>))
      else if menuItem m = 2 then
        and_then (settings_at m (currentSetting m)) (\<lambda>p.
          let t0 = (if isnan (targetCapacity p) then Fin 0 else targetCapacity p);
              t1 = fadd t0 adjustment;
              t2 = (if flt t1 (Fin 0) then Fin 0 else t1)
          in Inr (m\<lparr>settings := (settings m)(currentSetting m := p\<lparr>targetCapacity := t2\<rparr>)\<rparr>))
      else Inr m)"

text \<open>\<^verbatim>\<open>currentSetting += adjustment\<close> adds in \<^verbatim>\<open>float\<close> and converts the sum back.\<close>

definition adjustCurrentSettingIndex :: "bool \<Rightarrow> mvm \<Rightarrow> error + mvm" where
  "adjustCurrentSettingIndex increase m =
     (let adjustment = (if increase then Fin 1 else Fin (- 1)) in
      if menuItem m = 0 then
        (let c0 = (if isnan (int_to_float (currentSetting m)) then 0 else currentSetting m) in
         and_then (float_to_int (fadd (int_to_float c0) adjustment)) (\<lambda>c1.
           let c2 = (if c1 < 0 then 0 else c1);
               c3 = (if 5 \<le> c2 then 4 else c2)
           in Inr (m\<lparr>currentSetting := c3\<rparr>)))
      else Inr m)"

text \<open>The block \<^verbatim>\<open>if (up) menuItem = (menuItem + d) % n; if (down) menuItem = (menuItem + 1) % n;\<close>
  that opens the Menu and Edit branches (\<open>d = 3\<close>, \<open>n = 4\<close>) and the Load branch
  (\<open>d = 1\<close>, \<open>n = 2\<close>).\<close>

definition navigate :: "int \<Rightarrow> int \<Rightarrow> buttons \<Rightarrow> mvm \<Rightarrow> mvm" where
  "navigate d n b m =
     (let m1 = (if up b then m\<lparr>menuItem := c_rem (menuItem m + d) n\<rparr> else m)
      in if down b then m1\<lparr>menuItem := c_rem (menuItem m1 + 1) n\<rparr> else m1)"

definition handleButtons :: "buttons \<Rightarrow> float32 \<Rightarrow> mvm \<Rightarrow> error + mvm" where
  "handleButtons b sonar m =
     (if currentScreen m = MAIN_SCREEN then
        (if select b then Inr (m\<lparr>currentScreen := MENU_SCREEN, menuItem := - 1\<rparr>) else Inr m)
      else if currentScreen m = MENU_SCREEN then
        (let m1 = navigate 3 4 b m
         in if select b then Inr (executeMenuAction m1) else Inr m1)
      else if currentScreen m = VIEW_SCREEN then
        (if select b then Inr (m\<lparr>currentScreen := MENU_SCREEN\<rparr>) else Inr m)
      else if currentScreen m = SETTINGS_SCREEN then
        (let m1 = navigate 3 4 b m
         in if menuItem m1 = 0 then
              (if select b then adjustSetting True sonar m1 else Inr m1)
            else if menuItem m1 < 3 then
              (if left b then adjustSetting False sonar m1
               else if right b then adjustSetting True sonar m1
               else Inr m1)
            else
              (if select b
               then Inr ((saveSettings (currentSetting m1) m1)
                           \<lparr>currentScreen := MENU_SCREEN, menuItem := - 1\<rparr>)
               else Inr m1))
      else if currentScreen m = LOAD_SCREEN then
        (let m1 = navigate 1 2 b m
         in if menuItem m1 = 0 then
              (if left b then adjustCurrentSettingIndex False m1
               else if right b then adjustCurrentSettingIndex True m1
               else Inr m1)
            else
              (if select b
               then Inr ((loadSettings (m1\<lparr>eeprom_currentSetting := currentSetting m1\<rparr>))
                           \<lparr>currentScreen := MENU_SCREEN, menuItem := - 1\<rparr>)
               else Inr m1))
      else Inr m)"

text \<open>\<^verbatim>\<open>pingSonar\<close>, as a function of the pulse length that \<^verbatim>\<open>pulseIn\<close> reports: the
  \<^verbatim>\<open>long\<close> is converted, multiplied by \<^verbatim>\<open>0.034\<close> and halved. The button handling and the
  renders below take the value it returns as an argument, so that they can be stated for
  every \<^verbatim>\<open>float\<close>.\<close>

definition pingSonar :: "int \<Rightarrow> float32" where
  "pingSonar duration = fdiv (fmul (int_to_float duration) (round_f32 0.034)) (Fin 2)"

text \<open>The states the sketch can be in at the top of \<^verbatim>\<open>loop()\<close>: \<^verbatim>\<open>setup()\<close> has run over
  some EEPROM content, then any number of cycles with any buttons and sensor readings.
  Rendering does not change the state.\<close>

inductive reachable :: "mvm \<Rightarrow> bool" where
  boot: "reachable (setup_mvm (power_on stored_settings stored_index))"
| cycle: "reachable m \<Longrightarrow> handleButtons b sonar m = Inr m' \<Longrightarrow> reachable m'"

text \<open>A run of edits on the Edit screen: each one highlights a row (\<open>1\<close> the diameter,
  \<open>2\<close> the target capacity) and calls \<^verbatim>\<open>adjustSetting\<close> with a direction.\<close>

fun edits :: "(int \<times> bool) list \<Rightarrow> float32 \<Rightarrow> mvm \<Rightarrow> error + mvm" where
  "edits [] sonar m = Inr m"
| "edits ((item, increase) # ops) sonar m =
     and_then (adjustSetting increase sonar (m\<lparr>menuItem := item\<rparr>)) (edits ops sonar)"

section \<open>Rendering\<close>

text \<open>The display is the Adafruit SSD1306 object built with \<^verbatim>\<open>(128, 64, ...)\<close>. A render is
  the list of calls it makes on that object, in order.\<close>

datatype color = BLACK | WHITE

datatype draw =
    ClearDisplay
  | SetTextSize int
  | SetTextColor color color
  | SetCursor int int
  | Print_str string
  | Println_str string
  | Print_float float32 int
  | DrawLine int int int int color
  | DrawRect int int int int color
  | FillRect int int int int color
  | Display

text \<open>
  \<^verbatim>\<open>display.print(volume, 1)\<close> is the \<^verbatim>\<open>print(double, int)\<close> of the Arduino core's \<^verbatim>\<open>Print\<close>
  class, which the display inherits; it belongs to the core, not to \<^verbatim>\<open>mvm.cpp\<close>. Its
  \<^verbatim>\<open>printFloat\<close> writes \<^verbatim>\<open>nan\<close>, \<^verbatim>\<open>inf\<close> or \<^verbatim>\<open>ovf\<close> for values it cannot print, else a
  minus sign for a negative number, adds \<^verbatim>\<open>0.5 / 10^digits\<close>, prints the integer part
  (\<^verbatim>\<open>(unsigned long)number\<close>), a point, and then \<^verbatim>\<open>digits\<close> times the integer part of ten
  times the remainder. The renders below keep the call itself (\<open>Print_float\<close>);
  \<open>printFloat\<close> says which characters the call writes.
\<close>

definition float_to_unsigned :: "int \<Rightarrow> float32 \<Rightarrow> error + int" where
  "float_to_unsigned limit x =
     (case x of
        Fin r \<Rightarrow> if 0 \<le> truncate_real r \<and> truncate_real r \<le> limit then Inr (truncate_real r)
                 else Inl Conversion_overflow
      | _ \<Rightarrow> Inl Conversion_overflow)"

fun decimal :: "nat \<Rightarrow> string" where
  "decimal n =
     (if n < 10 then [''0123456789'' ! n]
      else decimal (n div 10) @ [''0123456789'' ! (n mod 10)])"

declare decimal.simps [simp del]

fun rounding_of :: "nat \<Rightarrow> float32" where
  "rounding_of 0 = Fin (1 / 2)"
| "rounding_of (Suc i) = fdiv (rounding_of i) (Fin 10)"

fun print_digits :: "nat \<Rightarrow> float32 \<Rightarrow> error + string" where
  "print_digits 0 remainder = Inr []"
| "print_digits (Suc i) remainder =
     (let remainder = fmul remainder (Fin 10) in
      and_then (float_to_unsigned 65535 remainder) (\<lambda>toPrint.
      and_then (print_digits i (fsub remainder (int_to_float toPrint))) (\<lambda>rest.
        Inr (decimal (nat toPrint) @ rest))))"

definition printFloat :: "float32 \<Rightarrow> nat \<Rightarrow> error + string" where
  "printFloat number digits =
     (if isnan number then Inr ''nan''
      else if number = PInf \<or> number = MInf then Inr ''inf''
      else if flt (Fin 4294967040) number then Inr ''ovf''
      else if flt number (Fin (- 4294967040)) then Inr ''ovf''
      else
        (let sign = (if flt number (Fin 0) then ''-'' else '''');
             number = (if flt number (Fin 0) then fneg number else number);
             number = fadd number (rounding_of digits)
         in and_then (float_to_unsigned 4294967295 number) (\<lambda>int_part.
            and_then (print_digits digits (fsub number (int_to_float int_part))) (\<lambda>rest.
              Inr (sign @ decimal (nat int_part) @ (if 0 < digits then ''.'' else '''') @ rest)))))"

definition display_width :: int where "display_width = 128"
definition display_height :: int where "display_height = 64"

text \<open>The first argument is the value \<^verbatim>\<open>pingSonar()\<close> returns.\<close>

definition updateMainScreen :: "float32 \<Rightarrow> mvm \<Rightarrow> error + draw list" where
  "updateMainScreen distance m =
     and_then (settings_at m (currentSetting m)) (\<lambda>p.
       let height = fsub (minHeight p) distance;
           volume = fdiv (fmul (fmul PI (diameter p)) height) (Fin 1000)
       in if isnan volume then
            Inr [ClearDisplay, SetTextSize 1, SetCursor 0 0, Println_str ''please set up tank'']
          else
            (let volume = (if flt volume (Fin 0) then Fin 0 else volume);
                 remainingCapacity = fsub (targetCapacity p) volume;
                 progressBarWidth = display_width - 4;
                 progressBarHeight = 8;
                 progressBarX = 2;
                 progressBarY = c_quot (display_height - progressBarHeight) 2 + 15
             in and_then (float_to_long volume) (\<lambda>x.
                and_then (float_to_long (targetCapacity p)) (\<lambda>in_max.
                and_then (arduino_map x 0 in_max 0 progressBarWidth) (\<lambda>mapped.
                  let progress = long_to_int mapped
                  in Inr [ClearDisplay, SetTextSize 2,
                          SetCursor (c_quot (display_width - 6 * 8) 2) 15,
                          Print_float volume 1, Print_str '' L'',
                          DrawRect progressBarX progressBarY progressBarWidth progressBarHeight WHITE,
                          FillRect progressBarX progressBarY progress progressBarHeight WHITE,
                          Display])))))"

definition menuItems :: "string list" where
  "menuItems = [''Main Screen'', ''View Settings'', ''Edit Settings'', ''Load Settings'']"

text \<open>The loop \<^verbatim>\<open>for (int i = 0; i < 5; i++)\<close> of \<^verbatim>\<open>updateMenuScreen\<close>, from \<open>i\<close> on; \<open>acc\<close>
  holds the calls made so far. Reading \<^verbatim>\<open>menuItems[i]\<close> outside the array is an error.\<close>

function menu_rows :: "int \<Rightarrow> int \<Rightarrow> draw list \<Rightarrow> error + draw list" where
  "menu_rows item i acc =
     (if i < 5 then
        (if 0 \<le> i \<and> i < int (length menuItems) then
           menu_rows item (i + 1)
             (acc @ (if i = item
                     then [FillRect 0 (i * 10 + 11) display_width 10 WHITE, SetTextColor BLACK WHITE]
                     else [SetTextColor WHITE BLACK])
                  @ [SetCursor 0 (i * 10 + 11), Println_str (menuItems ! nat i)])
         else Inl (Index_out_of_bounds i))
      else Inr acc)"
  by pat_completeness auto
termination
  by (relation "measure (\<lambda>(item, i, acc). nat (5 - i))") auto

declare menu_rows.simps [simp del]

definition updateMenuScreen :: "mvm \<Rightarrow> error + draw list" where
  "updateMenuScreen m =
     and_then
       (menu_rows (menuItem m) 0
          [SetTextSize 1, SetCursor (c_quot (display_width - 4 * 6) 2) 0, Println_str ''Menu'',
           DrawLine 0 10 display_width 10 WHITE])
       (\<lambda>calls. Inr (calls @ [Display]))"

section \<open>Invariant and example inputs\<close>

text \<open>What holds in every reachable state: the active index is a valid subscript, the
  screen is one of the five, the highlighted row is the sentinel \<open>-1\<close> or a row number,
  and on the View screen (which never touches \<^verbatim>\<open>menuItem\<close>) it is still the sentinel the
  menu dispatch left.\<close>

definition mvm_inv :: "mvm \<Rightarrow> bool" where
  "mvm_inv m =
     (0 \<le> currentSetting m \<and> currentSetting m < 5 \<and>
      MAIN_SCREEN \<le> currentScreen m \<and> currentScreen m \<le> LOAD_SCREEN \<and>
      - 1 \<le> menuItem m \<and> menuItem m \<le> 3 \<and>
      (currentScreen m = VIEW_SCREEN \<longrightarrow> menuItem m = - 1))"

definition pressed :: "bool \<Rightarrow> bool \<Rightarrow> bool \<Rightarrow> bool \<Rightarrow> bool \<Rightarrow> buttons" where
  "pressed u d l r s = \<lparr>up = u, down = d, left = l, right = r, select = s\<rparr>"

definition tank :: "float32 \<Rightarrow> float32 \<Rightarrow> float32 \<Rightarrow> WaterTankSetting" where
  "tank h d c = \<lparr>minHeight = h, diameter = d, targetCapacity = c\<rparr>"

text \<open>The sketch after \<^verbatim>\<open>setup()\<close> over an EEPROM whose five slots all hold \<open>p\<close> and whose
  index record holds \<open>idx\<close>; and the same with the screen and the highlighted row set.\<close>

definition booted :: "WaterTankSetting \<Rightarrow> int \<Rightarrow> mvm" where
  "booted p idx = setup_mvm (power_on (\<lambda>i. p) idx)"

definition on_screen :: "WaterTankSetting \<Rightarrow> int \<Rightarrow> int \<Rightarrow> mvm" where
  "on_screen p scr item = (booted p 0)\<lparr>currentScreen := scr, menuItem := item\<rparr>"

text \<open>A profile as the struct's initialisers give it, and one as an erased EEPROM (all bytes
  \<open>0xFF\<close>) gives it.\<close>

definition zero_tank :: WaterTankSetting where
  "zero_tank = tank (Fin 0) (Fin 0) (Fin 0)"

definition unset_tank :: WaterTankSetting where
  "unset_tank = tank NaN NaN NaN"

text \<open>The value one edit writes into the diameter or the target capacity, as the two
  identical cases of \<^verbatim>\<open>adjustSetting\<close> compute it from the old value \<open>v\<close>.\<close>

definition edited :: "bool \<Rightarrow> float32 \<Rightarrow> float32" where
  "edited increase v =
     (let v0 = (if isnan v then Fin 0 else v);
          v1 = fadd v0 (if increase then Fin 10 else Fin (- 10))
      in if flt v1 (Fin 0) then Fin 0 else v1)"

text \<open>The value \<^verbatim>\<open>updateMainScreen\<close> computes in its local \<^verbatim>\<open>volume\<close> before the NaN test.\<close>

definition volume_of :: "WaterTankSetting \<Rightarrow> float32 \<Rightarrow> float32" where
  "volume_of p distance =
     fdiv (fmul (fmul PI (diameter p)) (fsub (minHeight p) distance)) (Fin 1000)"

section \<open>Facts about the arithmetic\<close>

lemma f32_exponent_eq:
  "e \<le> k \<Longrightarrow> k \<le> e + int n \<Longrightarrow> 2 powi k \<le> a \<or> k = e \<Longrightarrow> a < 2 powi (k + 1)
     \<Longrightarrow> f32_exponent n e a = k"
proof (induction n arbitrary: e)
  case 0
  then show ?case by simp
next
  case (Suc n)
  show ?case
  proof (cases "2 powi (e + 1) \<le> a")
    case True
    with Suc.prems(4) have "(2::real) powi (e + 1) < 2 powi (k + 1)" by linarith
    then have "\<not> k + 1 \<le> e + 1"
      using power_int_increasing [of "k + 1" "e + 1" "2::real"] by auto
    then have ek: "e + 1 \<le> k" by simp
    have k2: "2 powi k \<le> a"
      using Suc.prems(3) ek by auto
    have "f32_exponent n (e + 1) a = k"
      using Suc.IH [of "e + 1"] ek Suc.prems(2) k2 Suc.prems(4) by simp
    with True show ?thesis by simp
  next
    case False
    have "k = e"
    proof (rule ccontr)
      assume "k \<noteq> e"
      with Suc.prems(1,3) have "e + 1 \<le> k" and "2 powi k \<le> a" by auto
      then have "(2::real) powi (e + 1) \<le> a"
        using power_int_increasing [of "e + 1" k "2::real"] by linarith
      with False show False by simp
    qed
    with False show ?thesis by simp
  qed
qed

lemma round_f32_at:
  assumes "- 126 \<le> k" "k \<le> 127" "2 powi k \<le> \<bar>x\<bar> \<or> k = - 126" "\<bar>x\<bar> < 2 powi (k + 1)"
  shows "round_f32 x =
     (let ulp = 2 powi (k - 23); r = of_int (round_half_even (\<bar>x\<bar> / ulp)) * ulp
      in if 2 powi 128 \<le> r then (if 0 < x then PInf else MInf)
         else Fin (if x < 0 then - r else r))"
proof -
  have "f32_exponent 253 (- 126) \<bar>x\<bar> = k"
    using assms by (intro f32_exponent_eq) auto
  then show ?thesis unfolding round_f32_def Let_def by (simp only:)
qed

lemma round_f32_not_NaN: "round_f32 x \<noteq> NaN"
  by (simp add: round_f32_def Let_def)

lemma round_f32_small_int:
  "- 1 \<le> i \<Longrightarrow> i \<le> 5 \<Longrightarrow> round_f32 (of_int i) = Fin (of_int i)"
proof -
  assume "- 1 \<le> i" "i \<le> 5"
  then consider "i = - 1" | "i = 0" | "i = 1" | "i = 2" | "i = 3" | "i = 4" | "i = 5"
    by linarith
  then show ?thesis
  proof cases
    case 1 then show ?thesis by (simp add: round_f32_at [of 0] round_half_even_def)
  next
    case 2 then show ?thesis by (simp add: round_f32_at [of "- 126"] round_half_even_def)
  next
    case 3 then show ?thesis by (simp add: round_f32_at [of 0] round_half_even_def)
  next
    case 4 then show ?thesis by (simp add: round_f32_at [of 1] round_half_even_def)
  next
    case 5 then show ?thesis by (simp add: round_f32_at [of 1] round_half_even_def)
  next
    case 6 then show ?thesis by (simp add: round_f32_at [of 2] round_half_even_def)
  next
    case 7 then show ?thesis by (simp add: round_f32_at [of 2] round_half_even_def)
  qed
qed

lemma PI_value: "PI = Fin (13176795 / 4194304)"
  by (simp add: PI_def round_f32_at [of 1] round_half_even_def)

lemma round_f32_10: "round_f32 10 = Fin 10"
  by (simp add: round_f32_at [of 3] round_half_even_def)

lemma example_height: "fsub (Fin 50) (Fin 30) = Fin 20"
  by (simp add: fsub_def round_f32_at [of 4] round_half_even_def)

lemma example_PI_diameter: "fmul PI (Fin 20) = Fin (8235497 / 131072)"
  by (simp add: PI_value round_f32_at [of 5] round_half_even_def)

lemma example_product: "fmul (Fin (8235497 / 131072)) (Fin 20) = Fin (10294371 / 8192)"
  by (simp add: round_f32_at [of 10] round_half_even_def)

lemma example_quotient: "fdiv (Fin (10294371 / 8192)) (Fin 1000) = Fin (2635359 / 2097152)"
  by (simp add: round_f32_at [of 0] round_half_even_def)

lemma example_volume:
  "fdiv (fmul (fmul PI (Fin 20)) (fsub (Fin 50) (Fin 30))) (Fin 1000) = Fin (2635359 / 2097152)"
  by (simp only: example_height example_PI_diameter example_product example_quotient)


subsection \<open>NaN and the sign test\<close>

lemma isnan_simps [simp]:
  "isnan NaN" "\<not> isnan PInf" "\<not> isnan MInf" "\<not> isnan (Fin r)"
  by (simp_all add: isnan_def)

lemma isnan_round_f32 [simp]: "\<not> isnan (round_f32 x)"
  using round_f32_not_NaN [of x] by (cases "round_f32 x") simp_all

lemma fadd_Fin_not_NaN: "\<not> isnan x \<Longrightarrow> \<not> isnan (fadd x (Fin a))"
  by (cases x) simp_all

lemma clamp_nonneg: "\<not> isnan x \<Longrightarrow> fle (Fin 0) (if flt x (Fin 0) then Fin 0 else x)"
  by (cases x) (simp_all add: fle_def)

lemma edited_nonneg: "fle (Fin 0) (edited increase v)"
proof -
  have "\<not> isnan (fadd (if isnan v then Fin 0 else v) (if increase then Fin 10 else Fin (- 10)))"
    by (cases increase) (simp_all add: fadd_Fin_not_NaN)
  then show ?thesis
    unfolding edited_def Let_def by (rule clamp_nonneg)
qed

lemma round_f32_minus_10: "round_f32 (- 10) = Fin (- 10)"
  by (simp add: round_f32_at [of 3] round_half_even_def)

lemma int_to_float_not_NaN: "\<not> isnan (int_to_float i)"
  using round_f32_not_NaN [of "of_int i"]
  by (cases "round_f32 (of_int i)") (simp_all add: int_to_float_def isnan_def)

text \<open>The sensor routine of the sketch never returns a NaN: its result is a product and
  a quotient of non-NaN values with non-zero finite constants.\<close>

lemma pingSonar_not_NaN: "\<not> isnan (pingSonar duration)"
proof -
  have c: "round_f32 0.034 = Fin (4563403 / 134217728)"
    by (simp add: round_f32_at [of "- 5"] round_half_even_def)
  have m: "\<not> isnan (fmul x (Fin (4563403 / 134217728)))" if "\<not> isnan x" for x
    using that by (cases x) (simp_all add: inf_of_sign_def)
  have d: "\<not> isnan (fdiv y (Fin 2))" if "\<not> isnan y" for y
    using that by (cases y) (simp_all add: inf_of_sign_def)
  show ?thesis
    unfolding pingSonar_def c by (intro d m int_to_float_not_NaN)
qed

section \<open>Facts about the button handling\<close>

text \<open>The remainder follows the dividend's sign, so below the sentinel the cycling formula
  can leave the range; no reachable state has such a \<^verbatim>\<open>menuItem\<close> (\<open>reachable_inv\<close>).\<close>

lemma c_rem_below_sentinel: "c_rem (- 7 + 1) 4 = - 2"
  by (simp add: c_rem_def)

lemma c_rem_nonneg: "0 \<le> a \<Longrightarrow> 0 < n \<Longrightarrow> 0 \<le> c_rem a n \<and> c_rem a n < n"
  by (cases "a = 0") (simp_all add: c_rem_def)

lemma navigate_others [simp]:
  "currentSetting (navigate d n b m) = currentSetting m"
  "currentScreen (navigate d n b m) = currentScreen m"
  "settings (navigate d n b m) = settings m"
  "eeprom_settings (navigate d n b m) = eeprom_settings m"
  "eeprom_currentSetting (navigate d n b m) = eeprom_currentSetting m"
  by (simp_all add: navigate_def Let_def)

lemma navigate_idle: "\<not> up b \<Longrightarrow> \<not> down b \<Longrightarrow> navigate d n b m = m"
  by (simp add: navigate_def)

lemma navigate_range:
  assumes "- 1 \<le> menuItem m" "1 \<le> d" "0 < n" "up b \<or> down b"
  shows "0 \<le> menuItem (navigate d n b m) \<and> menuItem (navigate d n b m) < n"
proof -
  have u: "0 \<le> c_rem (menuItem m + d) n \<and> c_rem (menuItem m + d) n < n"
    using assms by (intro c_rem_nonneg) auto
  have d1: "0 \<le> c_rem (menuItem m + 1) n \<and> c_rem (menuItem m + 1) n < n"
    using assms by (intro c_rem_nonneg) auto
  have ud: "0 \<le> c_rem (c_rem (menuItem m + d) n + 1) n \<and> c_rem (c_rem (menuItem m + d) n + 1) n < n"
    using u assms by (intro c_rem_nonneg) auto
  show ?thesis
    using assms(4) u d1 ud by (auto simp: navigate_def Let_def)
qed

lemma navigate_inv:
  assumes "- 1 \<le> menuItem m" "menuItem m \<le> 3" "1 \<le> d" "0 < n" "n \<le> 4"
  shows "- 1 \<le> menuItem (navigate d n b m) \<and> menuItem (navigate d n b m) \<le> 3"
proof (cases "up b \<or> down b")
  case True
  then show ?thesis using navigate_range [OF assms(1,3,4) True] assms(5) by linarith
next
  case False
  then show ?thesis using assms by (simp add: navigate_idle)
qed

lemma executeMenuAction_fields [simp]:
  "menuItem (executeMenuAction m) = - 1"
  "currentSetting (executeMenuAction m) = currentSetting m"
  by (simp_all add: executeMenuAction_def Let_def)

lemma executeMenuAction_screen:
  "0 \<le> currentScreen m \<Longrightarrow> currentScreen m \<le> 4 \<Longrightarrow>
     0 \<le> currentScreen (executeMenuAction m) \<and> currentScreen (executeMenuAction m) \<le> 4"
  by (simp add: executeMenuAction_def Let_def)

lemma saveSettings_fields [simp]:
  "menuItem (saveSettings i m) = menuItem m"
  "currentSetting (saveSettings i m) = currentSetting m"
  "currentScreen (saveSettings i m) = currentScreen m"
  by (simp_all add: saveSettings_def)

lemma loadSettings_fields [simp]:
  "menuItem (loadSettings m) = menuItem m"
  "currentSetting (loadSettings m) = currentSetting m"
  "currentScreen (loadSettings m) = currentScreen m"
  "eeprom_currentSetting (loadSettings m) = eeprom_currentSetting m"
  "eeprom_settings (loadSettings m) = eeprom_settings m"
  by (simp_all add: loadSettings_def)

lemma loadSettings_settings:
  "settings (loadSettings m) i = (if 0 \<le> i \<and> i < 5 then eeprom_settings m i else settings m i)"
  by (simp add: loadSettings_def) arith

lemma adjustSetting_fields:
  assumes "adjustSetting inc sonar m = Inr m'"
  shows "menuItem m' = menuItem m \<and> currentSetting m' = currentSetting m
         \<and> currentScreen m' = currentScreen m"
  using assms
  by (auto simp: adjustSetting_def and_then_def Let_def split: if_splits sum.splits)

lemma adjustSetting_total:
  assumes "0 \<le> currentSetting m" "currentSetting m < 5"
  shows "\<exists>m'. adjustSetting inc sonar m = Inr m'"
  using assms by (simp add: adjustSetting_def and_then_def settings_at_def Let_def)

lemma adjustCurrentSettingIndex_fields:
  assumes "adjustCurrentSettingIndex inc m = Inr m'"
  shows "menuItem m' = menuItem m \<and> currentScreen m' = currentScreen m
         \<and> (menuItem m = 0 \<longrightarrow> 0 \<le> currentSetting m' \<and> currentSetting m' \<le> 4)
         \<and> (menuItem m \<noteq> 0 \<longrightarrow> currentSetting m' = currentSetting m)"
  using assms
  by (auto simp: adjustCurrentSettingIndex_def and_then_def Let_def split: if_splits sum.splits)

lemma index_step:
  assumes "0 \<le> c" "c < 5"
  shows "float_to_int (fadd (int_to_float c) (Fin 1)) = Inr (c + 1)"
    and "float_to_int (fadd (int_to_float c) (Fin (- 1))) = Inr (c - 1)"
proof -
  have c: "int_to_float c = Fin (of_int c)"
    using assms by (simp add: int_to_float_def round_f32_small_int)
  have "round_f32 (of_int (c + 1)) = Fin (of_int (c + 1))"
    using assms by (intro round_f32_small_int) auto
  then show "float_to_int (fadd (int_to_float c) (Fin 1)) = Inr (c + 1)"
    using assms by (simp add: c float_to_int_def truncate_real_def INT_MIN_def INT_MAX_def)
  have "round_f32 (of_int (c - 1)) = Fin (of_int (c - 1))"
    using assms by (intro round_f32_small_int) auto
  then show "float_to_int (fadd (int_to_float c) (Fin (- 1))) = Inr (c - 1)"
    using assms by (simp add: c float_to_int_def truncate_real_def INT_MIN_def INT_MAX_def)
qed

lemma adjustCurrentSettingIndex_total:
  assumes "0 \<le> currentSetting m" "currentSetting m < 5"
  shows "\<exists>m'. adjustCurrentSettingIndex inc m = Inr m'"
  using assms index_step [OF assms]
  by (simp add: adjustCurrentSettingIndex_def and_then_def Let_def int_to_float_not_NaN)

lemma mvm_inv_boot: "mvm_inv (setup_mvm (power_on es ei))"
  by (simp add: mvm_inv_def setup_mvm_def power_on_def Let_def)

lemma mvm_inv_cycle:
  assumes "mvm_inv m" "handleButtons b sonar m = Inr m'"
  shows "mvm_inv m'"
proof -
  have mi: "- 1 \<le> menuItem m" "menuItem m \<le> 3" and cs: "0 \<le> currentSetting m" "currentSetting m < 5"
    and vw: "currentScreen m = VIEW_SCREEN \<Longrightarrow> menuItem m = - 1"
    using assms(1) by (simp_all add: mvm_inv_def)
  have n4: "- 1 \<le> menuItem (navigate 3 4 b m) \<and> menuItem (navigate 3 4 b m) \<le> 3"
    using mi by (intro navigate_inv) auto
  have n2: "- 1 \<le> menuItem (navigate 1 2 b m) \<and> menuItem (navigate 1 2 b m) \<le> 3"
    using mi by (intro navigate_inv) auto
  consider (main) "currentScreen m = MAIN_SCREEN" | (menu) "currentScreen m = MENU_SCREEN"
    | (view) "currentScreen m = VIEW_SCREEN" | (edit) "currentScreen m = SETTINGS_SCREEN"
    | (load) "currentScreen m = LOAD_SCREEN"
    | (none) "currentScreen m \<notin> {0, 1, 2, 3, 4}"
    by auto
  then show ?thesis
  proof cases
    case main
    then show ?thesis using assms cs mi
      by (auto simp: handleButtons_def mvm_inv_def split: if_splits)
  next
    case menu
    then show ?thesis using assms(2) cs n4 executeMenuAction_screen [of "navigate 3 4 b m"]
      by (auto simp: handleButtons_def mvm_inv_def Let_def split: if_splits)
  next
    case view
    then show ?thesis using assms(2) cs mi vw
      by (auto simp: handleButtons_def mvm_inv_def split: if_splits)
  next
    case edit
    then show ?thesis using assms(2) cs n4
      by (auto simp: handleButtons_def mvm_inv_def Let_def split: if_splits
          dest!: adjustSetting_fields)
  next
    case load
    then show ?thesis using assms(2) cs n2
      by (auto simp: handleButtons_def mvm_inv_def Let_def split: if_splits
          dest!: adjustCurrentSettingIndex_fields)
  next
    case none
    then show ?thesis using assms by (auto simp: handleButtons_def)
  qed
qed

lemma reachable_inv: "reachable m \<Longrightarrow> mvm_inv m"
  by (induction rule: reachable.induct) (auto intro: mvm_inv_boot mvm_inv_cycle)

lemma view_has_sentinel: "reachable m \<Longrightarrow> currentScreen m = VIEW_SCREEN \<Longrightarrow> menuItem m = - 1"
  using reachable_inv [of m] by (simp add: mvm_inv_def)

lemma entering_menu_from_other:
  assumes "handleButtons b sonar m = Inr m'"
    and "currentScreen m \<noteq> MENU_SCREEN" "currentScreen m' = MENU_SCREEN"
    and "currentScreen m = VIEW_SCREEN \<longrightarrow> reachable m"
  shows "menuItem m' = - 1"
proof -
  have vw: "currentScreen m = VIEW_SCREEN \<Longrightarrow> menuItem m = - 1"
    using assms(4) view_has_sentinel by blast
  consider (main) "currentScreen m = MAIN_SCREEN"
    | (view) "currentScreen m = VIEW_SCREEN" | (edit) "currentScreen m = SETTINGS_SCREEN"
    | (load) "currentScreen m = LOAD_SCREEN"
    | (none) "currentScreen m \<notin> {0, 1, 2, 3, 4}"
    using assms(2) by auto
  then show ?thesis
  proof cases
    case main
    then show ?thesis using assms(1,3) by (auto simp: handleButtons_def split: if_splits)
  next
    case view
    then show ?thesis using assms(1,3) vw by (auto simp: handleButtons_def split: if_splits)
  next
    case edit
    then show ?thesis using assms(1,3)
      by (auto simp: handleButtons_def Let_def split: if_splits dest!: adjustSetting_fields)
  next
    case load
    then show ?thesis using assms(1,3)
      by (auto simp: handleButtons_def Let_def split: if_splits
          dest!: adjustCurrentSettingIndex_fields)
  next
    case none
    then show ?thesis using assms(1,3) by (auto simp: handleButtons_def)
  qed
qed

lemma handleButtons_total:
  assumes "0 \<le> currentSetting m" "currentSetting m < 5"
  shows "\<exists>m'. handleButtons b sonar m = Inr m'"
proof -
  have a: "\<exists>m'. adjustSetting inc sonar (navigate 3 4 b m) = Inr m'" for inc
    using assms by (intro adjustSetting_total) auto
  have c: "\<exists>m'. adjustCurrentSettingIndex inc (navigate 1 2 b m) = Inr m'" for inc
    using assms by (intro adjustCurrentSettingIndex_total) auto
  show ?thesis
    using a c by (simp add: handleButtons_def Let_def)
qed

subsection \<open>Some reachable states\<close>

lemma booted_fields:
  "0 \<le> idx \<Longrightarrow> idx < 5 \<Longrightarrow> currentSetting (booted p idx) = idx"
  "0 \<le> i \<Longrightarrow> i < 5 \<Longrightarrow> settings (booted p idx) i = p"
  "menuItem (booted p idx) = 0"
  "currentScreen (booted p idx) = MAIN_SCREEN"
  by (simp_all add: booted_def setup_mvm_def power_on_def Let_def loadSettings_settings)

lemma on_screen_boot: "on_screen p MAIN_SCREEN 0 = booted p 0"
  by (simp add: on_screen_def booted_def setup_mvm_def power_on_def Let_def loadSettings_def)

lemma reachable_main: "reachable (on_screen p MAIN_SCREEN 0)"
  unfolding on_screen_boot booted_def by (rule reachable.boot)

lemma step_main_select:
  "handleButtons (pressed False False False False True) sonar (on_screen p MAIN_SCREEN 0)
     = Inr (on_screen p MENU_SCREEN (- 1))"
  by (simp add: handleButtons_def pressed_def on_screen_def)

lemma reachable_menu: "reachable (on_screen p MENU_SCREEN (- 1))"
  using reachable.cycle [OF reachable_main step_main_select] .

lemma step_menu_down:
  "handleButtons (pressed False True False False False) sonar (on_screen p MENU_SCREEN (- 1))
     = Inr (on_screen p MENU_SCREEN 0)"
  by (simp add: handleButtons_def pressed_def on_screen_def navigate_def c_rem_def)

lemma step_menu_down_select:
  "handleButtons (pressed False True False False True) sonar (on_screen p MENU_SCREEN 0)
     = Inr (on_screen p VIEW_SCREEN (- 1))"
  by (simp add: handleButtons_def pressed_def on_screen_def navigate_def c_rem_def
      executeMenuAction_def)

lemma reachable_view: "reachable (on_screen p VIEW_SCREEN (- 1))"
  using reachable.cycle [OF reachable.cycle [OF reachable_menu step_menu_down] step_menu_down_select] .

lemma step_menu_up_down_select:
  "handleButtons (pressed True True False False True) sonar (on_screen p MENU_SCREEN (- 1))
     = Inr (on_screen p LOAD_SCREEN (- 1))"
  by (simp add: handleButtons_def pressed_def on_screen_def navigate_def c_rem_def
      executeMenuAction_def)

lemma reachable_load: "reachable (on_screen p LOAD_SCREEN (- 1))"
  using reachable.cycle [OF reachable_menu step_menu_up_down_select] .

subsection \<open>Editing\<close>

lemma adjustSetting_step:
  assumes "0 \<le> currentSetting m" "currentSetting m < 5"
  shows "\<exists>m1. adjustSetting increase sonar (m\<lparr>menuItem := item\<rparr>) = Inr m1
          \<and> currentSetting m1 = currentSetting m
          \<and> diameter (settings m1 (currentSetting m))
              = (if item = 1 then edited increase (diameter (settings m (currentSetting m)))
                 else diameter (settings m (currentSetting m)))
          \<and> targetCapacity (settings m1 (currentSetting m))
              = (if item = 2 then edited increase (targetCapacity (settings m (currentSetting m)))
                 else targetCapacity (settings m (currentSetting m)))"
  using assms
  by (simp add: adjustSetting_def and_then_def settings_at_def edited_def Let_def)

lemma edits_fields:
  assumes "0 \<le> currentSetting m" "currentSetting m < 5"
  shows "\<exists>m'. edits ops sonar m = Inr m' \<and> currentSetting m' = currentSetting m
     \<and> ((1 \<in> fst ` set ops \<or> fle (Fin 0) (diameter (settings m (currentSetting m))))
          \<longrightarrow> fle (Fin 0) (diameter (settings m' (currentSetting m))))
     \<and> ((2 \<in> fst ` set ops \<or> fle (Fin 0) (targetCapacity (settings m (currentSetting m))))
          \<longrightarrow> fle (Fin 0) (targetCapacity (settings m' (currentSetting m))))
     \<and> (1 \<notin> fst ` set ops
          \<longrightarrow> diameter (settings m' (currentSetting m)) = diameter (settings m (currentSetting m)))
     \<and> (2 \<notin> fst ` set ops
          \<longrightarrow> targetCapacity (settings m' (currentSetting m))
              = targetCapacity (settings m (currentSetting m)))"
  using assms
proof (induction ops arbitrary: m)
  case Nil
  then show ?case by simp
next
  case (Cons op ops)
  obtain item increase where op: "op = (item, increase)" by (cases op)
  obtain m1 where m1: "adjustSetting increase sonar (m\<lparr>menuItem := item\<rparr>) = Inr m1"
    and c1: "currentSetting m1 = currentSetting m"
    and d1: "diameter (settings m1 (currentSetting m))
              = (if item = 1 then edited increase (diameter (settings m (currentSetting m)))
                 else diameter (settings m (currentSetting m)))"
    and t1: "targetCapacity (settings m1 (currentSetting m))
              = (if item = 2 then edited increase (targetCapacity (settings m (currentSetting m)))
                 else targetCapacity (settings m (currentSetting m)))"
    using adjustSetting_step [OF Cons.prems] by blast
  have "0 \<le> currentSetting m1" "currentSetting m1 < 5"
    using Cons.prems c1 by simp_all
  from Cons.IH [OF this] obtain m' where m': "edits ops sonar m1 = Inr m'"
    and c': "currentSetting m' = currentSetting m1"
    and dn: "(1 \<in> fst ` set ops \<or> fle (Fin 0) (diameter (settings m1 (currentSetting m1))))
          \<longrightarrow> fle (Fin 0) (diameter (settings m' (currentSetting m1)))"
    and tn: "(2 \<in> fst ` set ops \<or> fle (Fin 0) (targetCapacity (settings m1 (currentSetting m1))))
          \<longrightarrow> fle (Fin 0) (targetCapacity (settings m' (currentSetting m1)))"
    and dk: "1 \<notin> fst ` set ops
          \<longrightarrow> diameter (settings m' (currentSetting m1)) = diameter (settings m1 (currentSetting m1))"
    and tk: "2 \<notin> fst ` set ops
          \<longrightarrow> targetCapacity (settings m' (currentSetting m1))
              = targetCapacity (settings m1 (currentSetting m1))"
    by blast
  have run: "edits (op # ops) sonar m = Inr m'"
    by (simp add: op m1 m' and_then_def)
  have e1: "fle (Fin 0) (edited increase (diameter (settings m (currentSetting m))))"
    and e2: "fle (Fin 0) (edited increase (targetCapacity (settings m (currentSetting m))))"
    by (rule edited_nonneg)+
  show ?case
  proof (intro exI [of _ m'] conjI impI)
    show "edits (op # ops) sonar m = Inr m'" by (rule run)
    show "currentSetting m' = currentSetting m" using c' c1 by simp
    show "fle (Fin 0) (diameter (settings m' (currentSetting m)))"
      if "1 \<in> fst ` set (op # ops) \<or> fle (Fin 0) (diameter (settings m (currentSetting m)))"
      using that dn dk d1 e1 c1 op by (cases "1 \<in> fst ` set ops"; cases "item = 1") auto
    show "fle (Fin 0) (targetCapacity (settings m' (currentSetting m)))"
      if "2 \<in> fst ` set (op # ops) \<or> fle (Fin 0) (targetCapacity (settings m (currentSetting m)))"
      using that tn tk t1 e2 c1 op by (cases "2 \<in> fst ` set ops"; cases "item = 2") auto
    show "diameter (settings m' (currentSetting m)) = diameter (settings m (currentSetting m))"
      if "1 \<notin> fst ` set (op # ops)"
      using that dk d1 c1 op by auto
    show "targetCapacity (settings m' (currentSetting m)) = targetCapacity (settings m (currentSetting m))"
      if "2 \<notin> fst ` set (op # ops)"
      using that tk t1 c1 op by auto
  qed
qed

section \<open>Facts about the renders\<close>

lemma volume_of_example:
  "volume_of (tank (Fin 50) (Fin 20) c) (Fin 30) = Fin (2635359 / 2097152)"
  by (simp add: volume_of_def tank_def example_volume)

lemma volume_of_NaN:
  "isnan (diameter p) \<or> isnan (minHeight p) \<or> isnan distance \<Longrightarrow> isnan (volume_of p distance)"
proof -
  have a: "isnan (fsub h d)" if "isnan h \<or> isnan d" for h d
    using that by (cases h; cases d) (simp_all add: fsub_def)
  have b: "isnan (fmul x y)" if "isnan x \<or> isnan y" for x y
    using that by (cases x; cases y) simp_all
  have c: "isnan (fdiv x y)" if "isnan x" for x y
    using that by (cases x; cases y) simp_all
  assume "isnan (diameter p) \<or> isnan (minHeight p) \<or> isnan distance"
  then have "isnan (fmul (fmul PI (diameter p)) (fsub (minHeight p) distance))"
    using a b by blast
  then show ?thesis unfolding volume_of_def by (rule c)
qed

lemma updateMainScreen_unfold:
  assumes "0 \<le> currentSetting m" "currentSetting m < 5"
  shows "updateMainScreen distance m =
     (let p = settings m (currentSetting m); v = volume_of p distance in
      if isnan v then
        Inr [ClearDisplay, SetTextSize 1, SetCursor 0 0, Println_str ''please set up tank'']
      else
        (let volume = (if flt v (Fin 0) then Fin 0 else v)
         in and_then (float_to_long volume) (\<lambda>x.
            and_then (float_to_long (targetCapacity p)) (\<lambda>in_max.
            and_then (arduino_map x 0 in_max 0 124) (\<lambda>mapped.
              Inr [ClearDisplay, SetTextSize 2, SetCursor 40 15,
                   Print_float volume 1, Print_str '' L'',
                   DrawRect 2 43 124 8 WHITE,
                   FillRect 2 43 (long_to_int mapped) 8 WHITE,
                   Display])))))"
proof -
  have y: "c_quot (display_height - 8) 2 + 15 = 43"
    and x: "c_quot (display_width - 6 * 8) 2 = 40"
    and w: "display_width - 4 = 124"
    by (simp_all add: c_quot_def display_height_def display_width_def)
  have p: "settings_at m (currentSetting m) = Inr (settings m (currentSetting m))"
    using assms by (simp add: settings_at_def)
  show ?thesis
    unfolding updateMainScreen_def volume_of_def Let_def p x y w
    by (simp add: and_then_def)
qed

lemma arduino_map_zero_range: "\<exists>e. arduino_map x 0 0 0 w = Inl e"
  by (simp add: arduino_map_def and_then_def in_long_def LONG_MIN_def LONG_MAX_def)

lemma zero_targetCapacity_never_renders:
  assumes "0 \<le> currentSetting m" "currentSetting m < 5"
    and "\<not> isnan (volume_of (settings m (currentSetting m)) distance)"
    and "float_to_long (targetCapacity (settings m (currentSetting m))) = Inr 0"
  shows "\<exists>e. updateMainScreen distance m = Inl e"
proof (cases "float_to_long (if flt (volume_of (settings m (currentSetting m)) distance) (Fin 0)
                 then Fin 0 else volume_of (settings m (currentSetting m)) distance)")
  case (Inl e)
  then show ?thesis
    using assms by (simp add: updateMainScreen_unfold Let_def and_then_def)
next
  case (Inr x)
  obtain e where "arduino_map x 0 0 0 124 = Inl e"
    using arduino_map_zero_range by blast
  then show ?thesis
    using assms Inr by (simp add: updateMainScreen_unfold Let_def and_then_def)
qed

lemma volume_of_zero_tank: "volume_of zero_tank (Fin 30) = Fin 0"
proof -
  have z: "round_f32 0 = Fin 0"
    by (simp add: round_f32_at [of "- 126"] round_half_even_def)
  have h: "fsub (Fin 0) (Fin 30) = Fin (- 30)"
    by (simp add: fsub_def round_f32_at [of 4] round_half_even_def)
  show ?thesis
    by (simp add: volume_of_def zero_tank_def tank_def h z PI_value)
qed

lemma float_to_long_nonneg:
  assumes "\<not> flt y (Fin 0)" "float_to_long y = Inr x"
  shows "0 \<le> x \<and> x \<le> LONG_MAX"
  using assms
  by (cases y) (auto simp: float_to_long_def truncate_real_def split: if_splits)

lemma float_to_long_range:
  "float_to_long y = Inr c \<Longrightarrow> LONG_MIN \<le> c \<and> c \<le> LONG_MAX"
  by (cases y) (auto simp: float_to_long_def split: if_splits)

lemma arduino_map_bar:
  assumes "0 \<le> x" "x * 124 \<le> LONG_MAX" "0 < c" "c \<le> LONG_MAX"
  shows "arduino_map x 0 c 0 124 = Inr (x * 124 div c)"
proof -
  have q: "c_quot (x * 124) c = x * 124 div c"
    using assms by (cases "x = 0") (simp_all add: c_quot_def)
  have "0 \<le> x * 124 div c" using assms by (simp add: pos_imp_zdiv_nonneg_iff)
  moreover have "x * 124 div c \<le> x * 124"
    using assms by (simp add: zdiv_mono2 [of "x * 124" 1 c, simplified])
  ultimately show ?thesis
    using assms q
    by (simp add: arduino_map_def and_then_def in_long_def LONG_MIN_def LONG_MAX_def)
qed

subsection \<open>What the print of the example volume writes\<close>

lemma decimal_digit: "n < 10 \<Longrightarrow> decimal n = [''0123456789'' ! n]"
  by (simp add: decimal.simps)

lemma rounding_of_1: "rounding_of (Suc 0) = Fin (13421773 / 268435456)"
  by (simp add: round_f32_at [of "- 5"] round_half_even_def)

lemma printFloat_sum:
  "fadd (Fin (2635359 / 2097152)) (Fin (13421773 / 268435456)) = Fin (5480433 / 4194304)"
  by (simp add: round_f32_at [of 0] round_half_even_def)

lemma printFloat_remainder:
  "fsub (Fin (5480433 / 4194304)) (int_to_float 1) = Fin (1286129 / 4194304)"
  by (simp add: fsub_def int_to_float_def round_f32_at [of 0] round_f32_at [of "- 2"]
      round_half_even_def)

lemma printFloat_first_digit:
  "fmul (Fin (1286129 / 4194304)) (Fin 10) = Fin (6430645 / 2097152)"
  by (simp add: round_f32_at [of 1] round_half_even_def)

lemma printFloat_example:
  "printFloat (Fin (2635359 / 2097152)) 1 = Inr ''1.3''"
proof -
  have i: "float_to_unsigned 4294967295 (Fin (5480433 / 4194304)) = Inr 1"
    by (simp add: float_to_unsigned_def truncate_real_def)
  have d: "float_to_unsigned 65535 (Fin (6430645 / 2097152)) = Inr 3"
    by (simp add: float_to_unsigned_def truncate_real_def)
  have p: "print_digits (Suc 0) (Fin (1286129 / 4194304)) = Inr ''3''"
    by (simp add: printFloat_first_digit d and_then_def decimal_digit Let_def del: fmul.simps)
  have o: "(1::nat) = Suc 0" by simp
  show ?thesis
    unfolding printFloat_def o
    by (simp add: rounding_of_1 printFloat_sum i printFloat_remainder p and_then_def
        decimal_digit Let_def del: rounding_of.simps print_digits.simps fadd.simps)
qed

lemma menu_rows_past_end: "menu_rows item 0 acc = Inl (Index_out_of_bounds 4)"
  by (simp add: menu_rows.simps menuItems_def)

text \<open>On the Load screen the Select action is taken for every highlighted row but row 0.\<close>

lemma load_select_general:
  assumes "currentScreen m = LOAD_SCREEN" "select b"
  shows "menuItem (navigate 1 2 b m) \<noteq> 0 \<Longrightarrow>
           handleButtons b sonar m =
             Inr ((loadSettings ((navigate 1 2 b m)
                     \<lparr>eeprom_currentSetting := currentSetting m\<rparr>))
                     \<lparr>currentScreen := MENU_SCREEN, menuItem := - 1\<rparr>)"
    and "menuItem (navigate 1 2 b m) = 0 \<Longrightarrow> handleButtons b sonar m = Inr m' \<Longrightarrow>
           currentScreen m' = LOAD_SCREEN \<and> eeprom_currentSetting m' = eeprom_currentSetting m
           \<and> settings m' = settings m"
proof -
  show "handleButtons b sonar m =
             Inr ((loadSettings ((navigate 1 2 b m)
                     \<lparr>eeprom_currentSetting := currentSetting m\<rparr>))
                     \<lparr>currentScreen := MENU_SCREEN, menuItem := - 1\<rparr>)"
    if "menuItem (navigate 1 2 b m) \<noteq> 0"
    using assms that by (simp add: handleButtons_def Let_def)
  show "currentScreen m' = LOAD_SCREEN \<and> eeprom_currentSetting m' = eeprom_currentSetting m
           \<and> settings m' = settings m"
    if "menuItem (navigate 1 2 b m) = 0" "handleButtons b sonar m = Inr m'"
    using assms that
    by (auto simp: handleButtons_def Let_def adjustCurrentSettingIndex_def and_then_def
        split: if_splits sum.splits)
qed

section \<open>The claims\<close>

subsection \<open>C1: a target capacity of zero\<close>

text \<open>
  Claim C1 says that on the Main render, for a non-NaN volume and a target capacity of 0,
  the progress bar is drawn with zero fill, the division by the target capacity being
  special-cased. The code has no such case: \<^verbatim>\<open>updateMainScreen\<close> hands the target
  capacity to \<^verbatim>\<open>map\<close> as the upper input bound whatever its value, and with 0 the
  quotient \<^verbatim>\<open>(x - 0) * 124 / (0 - 0)\<close> is an integer division by zero. The theorem
  evaluates the render on the tank of the specification's example with the capacity set
  to 0 (volume about 1.2566), and on the all-zero profile that the struct initialisers
  and a zeroed EEPROM give (volume 0). Lemma \<open>zero_targetCapacity_never_renders\<close> above
  is the general fact: with a target capacity that converts to 0, no non-NaN volume
  gets its bar drawn.
\<close>

theorem updateMainScreen_divides_by_zero:
  "\<not> isnan (volume_of (tank (Fin 50) (Fin 20) (Fin 0)) (Fin 30))
   \<and> updateMainScreen (Fin 30) (booted (tank (Fin 50) (Fin 20) (Fin 0)) 0) = Inl Division_by_zero
   \<and> \<not> isnan (volume_of zero_tank (Fin 30))
   \<and> updateMainScreen (Fin 30) (booted zero_tank 0) = Inl Division_by_zero"
proof -
  have t: "targetCapacity (tank (Fin 50) (Fin 20) (Fin 0)) = Fin 0" "targetCapacity zero_tank = Fin 0"
    by (simp_all add: tank_def zero_tank_def)
  show ?thesis
    by (simp add: updateMainScreen_unfold booted_fields volume_of_example volume_of_zero_tank t
        Let_def and_then_def float_to_long_def truncate_real_def LONG_MIN_def LONG_MAX_def
        arduino_map_def in_long_def)
qed

subsection \<open>C2: the rows of the Menu screen\<close>

text \<open>
  Claim C2 says that the Menu render reads only in-bounds entries of its 4-element label
  array. It does not hold of the code: for every state, whatever \<^verbatim>\<open>menuItem\<close> is, the
  loop of \<^verbatim>\<open>updateMenuScreen\<close> runs \<open>i\<close> from 0 to 4 and fetches \<^verbatim>\<open>menuItems[4]\<close>, one past
  the last label, so the render ends in the out-of-bounds read at index 4.
\<close>

theorem updateMenuScreen_reads_index_4:
  "updateMenuScreen m = Inl (Index_out_of_bounds 4)"
  by (simp add: updateMenuScreen_def menu_rows_past_end and_then_def)

subsection \<open>C3: the sentinel on entering the Menu screen\<close>

text \<open>
  Claim C3: for every state the sketch can be in and every button combination, whenever
  a cycle changes the screen to Menu, \<^verbatim>\<open>menuItem\<close> is \<open>-1\<close> in the resulting state. From
  Main, Select leads to Menu and assigns the sentinel. From View, Select leads to Menu;
  the branch assigns \<^verbatim>\<open>currentScreen\<close> only, and \<^verbatim>\<open>menuItem\<close> is the sentinel that the menu
  dispatch left when View was entered (\<open>view_has_sentinel\<close>), so the resulting state has
  it too. In general, a cycle that returns and takes the sketch from a screen other than
  Menu to Menu ends with \<^verbatim>\<open>menuItem = -1\<close>; reachability is needed for the View screen
  only, from Main, Edit and Load it holds in any state. From a reachable state the
  button handling of every cycle returns.
\<close>

theorem entering_menu_has_sentinel:
  "(currentScreen m = MAIN_SCREEN \<and> select b
      \<longrightarrow> handleButtons b sonar m = Inr (m\<lparr>currentScreen := MENU_SCREEN, menuItem := - 1\<rparr>))
   \<and> (reachable m \<and> currentScreen m = VIEW_SCREEN \<and> select b
      \<longrightarrow> handleButtons b sonar m = Inr (m\<lparr>currentScreen := MENU_SCREEN\<rparr>)
          \<and> menuItem (m\<lparr>currentScreen := MENU_SCREEN\<rparr>) = - 1)
   \<and> (handleButtons b sonar m = Inr m' \<and> currentScreen m \<noteq> MENU_SCREEN
        \<and> currentScreen m' = MENU_SCREEN \<and> (currentScreen m = VIEW_SCREEN \<longrightarrow> reachable m)
      \<longrightarrow> menuItem m' = - 1)
   \<and> (reachable m \<longrightarrow> (\<exists>m''. handleButtons b sonar m = Inr m''))"
proof (intro conjI impI)
  show "handleButtons b sonar m = Inr (m\<lparr>currentScreen := MENU_SCREEN, menuItem := - 1\<rparr>)"
    if "currentScreen m = MAIN_SCREEN \<and> select b"
    using that by (simp add: handleButtons_def)
  show "handleButtons b sonar m = Inr (m\<lparr>currentScreen := MENU_SCREEN\<rparr>)"
    if "reachable m \<and> currentScreen m = VIEW_SCREEN \<and> select b"
    using that by (simp add: handleButtons_def)
  show "menuItem (m\<lparr>currentScreen := MENU_SCREEN\<rparr>) = - 1"
    if "reachable m \<and> currentScreen m = VIEW_SCREEN \<and> select b"
    using that view_has_sentinel by simp
  show "menuItem m' = - 1"
    if "handleButtons b sonar m = Inr m' \<and> currentScreen m \<noteq> MENU_SCREEN
        \<and> currentScreen m' = MENU_SCREEN \<and> (currentScreen m = VIEW_SCREEN \<longrightarrow> reachable m)"
    using that entering_menu_from_other [of b sonar m m'] by blast
  show "\<exists>m''. handleButtons b sonar m = Inr m''" if "reachable m"
  proof -
    have "0 \<le> currentSetting m" "currentSetting m < 5"
      using reachable_inv [OF that] by (simp_all add: mvm_inv_def)
    then show ?thesis by (rule handleButtons_total)
  qed
qed

text \<open>Claim C3 at work: the View screen, reached from a boot by Select, Down, Down with
  Select, and one more Select; and Select on the Main screen after the boot.\<close>

theorem entering_menu_has_sentinel_witness:
  "reachable (on_screen zero_tank VIEW_SCREEN (- 1))
   \<and> currentScreen (on_screen zero_tank VIEW_SCREEN (- 1)) = VIEW_SCREEN
   \<and> select (pressed False False False False True)
   \<and> handleButtons (pressed False False False False True) (Fin 0) (on_screen zero_tank VIEW_SCREEN (- 1))
       = Inr (on_screen zero_tank MENU_SCREEN (- 1))
   \<and> currentScreen (on_screen zero_tank VIEW_SCREEN (- 1)) \<noteq> MENU_SCREEN
   \<and> currentScreen (on_screen zero_tank MENU_SCREEN (- 1)) = MENU_SCREEN
   \<and> menuItem (on_screen zero_tank MENU_SCREEN (- 1)) = - 1
   \<and> currentScreen (on_screen zero_tank MAIN_SCREEN 0) = MAIN_SCREEN
   \<and> handleButtons (pressed False False False False True) (Fin 0) (on_screen zero_tank MAIN_SCREEN 0)
       = Inr (on_screen zero_tank MENU_SCREEN (- 1))"
proof -
  let ?sel = "pressed False False False False True"
  let ?v = "on_screen zero_tank VIEW_SCREEN (- 1)"
  let ?mn = "on_screen zero_tank MENU_SCREEN (- 1)"
  let ?m0 = "on_screen zero_tank MAIN_SCREEN 0"
  have r: "reachable ?v" by (rule reachable_view)
  have sv: "currentScreen ?v = VIEW_SCREEN" by (simp add: on_screen_def)
  have p: "select ?sel" by (simp add: pressed_def)
  have e: "?v\<lparr>currentScreen := MENU_SCREEN\<rparr> = ?mn" by (simp add: on_screen_def)
  have e0: "?m0\<lparr>currentScreen := MENU_SCREEN, menuItem := - 1\<rparr> = ?mn" by (simp add: on_screen_def)
  have s0: "currentScreen ?m0 = MAIN_SCREEN" by (simp add: on_screen_def)
  have h: "handleButtons ?sel (Fin 0) ?v = Inr ?mn"
    using entering_menu_has_sentinel [of ?v ?sel "Fin 0" ?mn] r sv p e by simp
  have h0: "handleButtons ?sel (Fin 0) ?m0 = Inr ?mn"
    using entering_menu_has_sentinel [of ?m0 ?sel "Fin 0" ?mn] s0 p e0 by simp
  have s: "currentScreen ?v \<noteq> MENU_SCREEN" by (simp add: on_screen_def)
  have s': "currentScreen ?mn = MENU_SCREEN" by (simp add: on_screen_def)
  have "menuItem ?mn = - 1"
    using entering_menu_has_sentinel [of ?v ?sel "Fin 0" ?mn] h s s' r by blast
  then show ?thesis
    using r sv p h s s' s0 h0 by simp
qed

subsection \<open>C4: Select together with an arrow on the Menu screen\<close>

text \<open>
  Claim C4 says that on the Menu screen Select is evaluated before the arrows, so the
  action taken belongs to \<^verbatim>\<open>menuItem\<close> as it was before the arrows moved it. The code
  tests Up, then Down, then Select. With row 0 highlighted, Down and Select together open
  the View screen (row 1), not the Main screen that the dispatch on the old value yields.
\<close>

theorem menu_select_uses_cycled_menuItem:
  "handleButtons (pressed False True False False True) (Fin 0) (on_screen zero_tank MENU_SCREEN 0)
     = Inr (on_screen zero_tank VIEW_SCREEN (- 1))
   \<and> executeMenuAction (on_screen zero_tank MENU_SCREEN 0) = on_screen zero_tank MAIN_SCREEN (- 1)
   \<and> currentScreen (on_screen zero_tank VIEW_SCREEN (- 1)) \<noteq> currentScreen (on_screen zero_tank MAIN_SCREEN (- 1))"
  by (simp add: handleButtons_def pressed_def on_screen_def navigate_def executeMenuAction_def
      c_rem_def)

text \<open>
  Claim C4, amended: on the Menu screen, when Select is pressed (with or without arrows),
  the arrows are applied first and the menu action is dispatched on the \<^verbatim>\<open>menuItem\<close> they
  produce.
\<close>

theorem menu_arrows_before_select:
  "currentScreen m = MENU_SCREEN \<Longrightarrow> select b \<Longrightarrow>
     handleButtons b sonar m = Inr (executeMenuAction (navigate 3 4 b m))"
  by (simp add: handleButtons_def Let_def)

text \<open>The amended claim C4 on row 0 with Down and Select: the dispatch sees row 1.\<close>

theorem menu_arrows_before_select_witness:
  "currentScreen (on_screen zero_tank MENU_SCREEN 0) = MENU_SCREEN
   \<and> select (pressed False True False False True)
   \<and> handleButtons (pressed False True False False True) (Fin 0) (on_screen zero_tank MENU_SCREEN 0)
       = Inr (executeMenuAction (navigate 3 4 (pressed False True False False True)
                (on_screen zero_tank MENU_SCREEN 0)))
   \<and> menuItem (navigate 3 4 (pressed False True False False True) (on_screen zero_tank MENU_SCREEN 0)) = 1"
proof -
  have s: "currentScreen (on_screen zero_tank MENU_SCREEN 0) = MENU_SCREEN"
    by (simp add: on_screen_def)
  have p: "select (pressed False True False False True)"
    by (simp add: pressed_def)
  show ?thesis
    using s p menu_arrows_before_select [OF s p, of "Fin 0"]
    by (simp add: navigate_def pressed_def on_screen_def c_rem_def)
qed

subsection \<open>C5: Select on the Load screen\<close>

text \<open>
  Claim C5 says that on the Load screen Select persists the index, reloads the profiles
  and returns to Menu exactly when \<^verbatim>\<open>menuItem == 1\<close>, and does nothing for any other
  value, the sentinel \<open>-1\<close> included. The code tests \<^verbatim>\<open>menuItem == 0\<close> and puts the Select
  action in the \<^verbatim>\<open>else\<close>, so the sentinel takes it too. The state below is the one the
  sketch is in right after "Load Settings" was chosen in the menu; it is reachable, and
  Select alone makes the sketch write the index, reload and go back to Menu. (The Menu
  dispatch and the Edit screen both do nothing on the sentinel.) Lemma
  \<open>load_select_general\<close> above is the general fact: the action is taken for every row
  but row 0.
\<close>

theorem load_select_fires_on_sentinel:
  "reachable (on_screen zero_tank LOAD_SCREEN (- 1))
   \<and> handleButtons (pressed False False False False True) (Fin 0) (on_screen zero_tank LOAD_SCREEN (- 1))
       = Inr ((loadSettings ((on_screen zero_tank LOAD_SCREEN (- 1))
                 \<lparr>eeprom_currentSetting := currentSetting (on_screen zero_tank LOAD_SCREEN (- 1))\<rparr>))
                 \<lparr>currentScreen := MENU_SCREEN, menuItem := - 1\<rparr>)"
proof
  show "reachable (on_screen zero_tank LOAD_SCREEN (- 1))" by (rule reachable_load)
  show "handleButtons (pressed False False False False True) (Fin 0) (on_screen zero_tank LOAD_SCREEN (- 1))
       = Inr ((loadSettings ((on_screen zero_tank LOAD_SCREEN (- 1))
                 \<lparr>eeprom_currentSetting := currentSetting (on_screen zero_tank LOAD_SCREEN (- 1))\<rparr>))
                 \<lparr>currentScreen := MENU_SCREEN, menuItem := - 1\<rparr>)"
    by (simp add: handleButtons_def pressed_def on_screen_def navigate_def)
qed

subsection \<open>C6: the range of the cycling formula\<close>

text \<open>
  Claim C6: for every value \<^verbatim>\<open>menuItem\<close> can have, the sentinel \<open>-1\<close> included, and every
  press of Up or Down on the Menu, Edit or Load screen, the cycling formula yields a
  value in \<open>[0, itemCount)\<close>. In every reachable state \<^verbatim>\<open>menuItem\<close> is between \<open>-1\<close> and 3.
  For such a state, and more generally for every \<^verbatim>\<open>menuItem\<close> from \<open>-1\<close> up to
  \<open>INT_MAX - 3\<close>, each of \<open>(menuItem + 3) % 4\<close>, \<open>(menuItem + 1) % 4\<close> and
  \<open>(menuItem + 1) % 2\<close> is in its range, and so is the value the navigation block leaves
  when Up, Down or both are pressed: in \<open>[0, 4)\<close> with the Menu and Edit parameters, in
  \<open>[0, 2)\<close> with the Load parameters. With no other button pressed that value is the
  \<^verbatim>\<open>menuItem\<close> of the cycle's resulting state on each of the three screens.
\<close>

theorem navigate_in_range:
  "(reachable m \<longrightarrow> - 1 \<le> menuItem m \<and> menuItem m \<le> 3)
   \<and> (reachable m \<or> (- 1 \<le> menuItem m \<and> menuItem m \<le> INT_MAX - 3)
      \<longrightarrow> 0 \<le> c_rem (menuItem m + 3) 4 \<and> c_rem (menuItem m + 3) 4 < 4
          \<and> 0 \<le> c_rem (menuItem m + 1) 4 \<and> c_rem (menuItem m + 1) 4 < 4
          \<and> 0 \<le> c_rem (menuItem m + 1) 2 \<and> c_rem (menuItem m + 1) 2 < 2
          \<and> (up b \<or> down b
              \<longrightarrow> 0 \<le> menuItem (navigate 3 4 b m) \<and> menuItem (navigate 3 4 b m) < 4
                  \<and> 0 \<le> menuItem (navigate 1 2 b m) \<and> menuItem (navigate 1 2 b m) < 2))
   \<and> (\<not> select b \<and> \<not> left b \<and> \<not> right b
      \<longrightarrow> (currentScreen m = MENU_SCREEN \<or> currentScreen m = SETTINGS_SCREEN
              \<longrightarrow> handleButtons b sonar m = Inr (navigate 3 4 b m))
          \<and> (currentScreen m = LOAD_SCREEN
              \<longrightarrow> handleButtons b sonar m = Inr (navigate 1 2 b m)))"
proof (intro conjI)
  show "reachable m \<longrightarrow> - 1 \<le> menuItem m \<and> menuItem m \<le> 3"
    using reachable_inv [of m] by (simp add: mvm_inv_def)
  show "reachable m \<or> (- 1 \<le> menuItem m \<and> menuItem m \<le> INT_MAX - 3)
      \<longrightarrow> 0 \<le> c_rem (menuItem m + 3) 4 \<and> c_rem (menuItem m + 3) 4 < 4
          \<and> 0 \<le> c_rem (menuItem m + 1) 4 \<and> c_rem (menuItem m + 1) 4 < 4
          \<and> 0 \<le> c_rem (menuItem m + 1) 2 \<and> c_rem (menuItem m + 1) 2 < 2
          \<and> (up b \<or> down b
              \<longrightarrow> 0 \<le> menuItem (navigate 3 4 b m) \<and> menuItem (navigate 3 4 b m) < 4
                  \<and> 0 \<le> menuItem (navigate 1 2 b m) \<and> menuItem (navigate 1 2 b m) < 2)"
  proof
    assume "reachable m \<or> (- 1 \<le> menuItem m \<and> menuItem m \<le> INT_MAX - 3)"
    then have lo: "- 1 \<le> menuItem m"
      using reachable_inv [of m] by (auto simp: mvm_inv_def)
    have n: "0 \<le> menuItem (navigate 3 4 b m) \<and> menuItem (navigate 3 4 b m) < 4
                  \<and> 0 \<le> menuItem (navigate 1 2 b m) \<and> menuItem (navigate 1 2 b m) < 2"
      if "up b \<or> down b"
      using navigate_range [OF lo _ _ that, of 3 4] navigate_range [OF lo _ _ that, of 1 2]
      by simp
    show "0 \<le> c_rem (menuItem m + 3) 4 \<and> c_rem (menuItem m + 3) 4 < 4
          \<and> 0 \<le> c_rem (menuItem m + 1) 4 \<and> c_rem (menuItem m + 1) 4 < 4
          \<and> 0 \<le> c_rem (menuItem m + 1) 2 \<and> c_rem (menuItem m + 1) 2 < 2
          \<and> (up b \<or> down b
              \<longrightarrow> 0 \<le> menuItem (navigate 3 4 b m) \<and> menuItem (navigate 3 4 b m) < 4
                  \<and> 0 \<le> menuItem (navigate 1 2 b m) \<and> menuItem (navigate 1 2 b m) < 2)"
      using n lo c_rem_nonneg [of "menuItem m + 3" 4] c_rem_nonneg [of "menuItem m + 1" 4]
        c_rem_nonneg [of "menuItem m + 1" 2]
      by simp
  qed
  show "\<not> select b \<and> \<not> left b \<and> \<not> right b
      \<longrightarrow> (currentScreen m = MENU_SCREEN \<or> currentScreen m = SETTINGS_SCREEN
              \<longrightarrow> handleButtons b sonar m = Inr (navigate 3 4 b m))
          \<and> (currentScreen m = LOAD_SCREEN
              \<longrightarrow> handleButtons b sonar m = Inr (navigate 1 2 b m))"
    by (auto simp: handleButtons_def Let_def)
qed

text \<open>Claim C6 from the sentinel on the Menu screen with Up: the cycle ends on row 2 of
  four; the Load parameters give row 0 of two.\<close>

theorem navigate_in_range_witness:
  "reachable (on_screen zero_tank MENU_SCREEN (- 1))
   \<and> menuItem (on_screen zero_tank MENU_SCREEN (- 1)) = - 1
   \<and> (up (pressed True False False False False) \<or> down (pressed True False False False False))
   \<and> \<not> select (pressed True False False False False)
   \<and> \<not> left (pressed True False False False False)
   \<and> \<not> right (pressed True False False False False)
   \<and> currentScreen (on_screen zero_tank MENU_SCREEN (- 1)) = MENU_SCREEN
   \<and> handleButtons (pressed True False False False False) (Fin 0) (on_screen zero_tank MENU_SCREEN (- 1))
       = Inr (on_screen zero_tank MENU_SCREEN 2)
   \<and> 0 \<le> menuItem (on_screen zero_tank MENU_SCREEN 2)
   \<and> menuItem (on_screen zero_tank MENU_SCREEN 2) < 4
   \<and> menuItem (navigate 1 2 (pressed True False False False False) (on_screen zero_tank MENU_SCREEN (- 1))) = 0"
proof -
  let ?b = "pressed True False False False False"
  let ?m = "on_screen zero_tank MENU_SCREEN (- 1)"
  have r: "reachable ?m" by (rule reachable_menu)
  have b: "up ?b \<or> down ?b" "\<not> select ?b" "\<not> left ?b" "\<not> right ?b"
    by (simp_all add: pressed_def)
  have s: "currentScreen ?m = MENU_SCREEN" "menuItem ?m = - 1"
    by (simp_all add: on_screen_def)
  have n: "navigate 3 4 ?b ?m = on_screen zero_tank MENU_SCREEN 2"
    by (simp add: navigate_def pressed_def on_screen_def c_rem_def)
  have n2: "menuItem (navigate 1 2 ?b ?m) = 0"
    by (simp add: navigate_def pressed_def on_screen_def c_rem_def)
  have h: "handleButtons ?b (Fin 0) ?m = Inr (navigate 3 4 ?b ?m)"
    using navigate_in_range [of ?m ?b "Fin 0"] b s by blast
  have "0 \<le> menuItem (navigate 3 4 ?b ?m) \<and> menuItem (navigate 3 4 ?b ?m) < 4"
    using navigate_in_range [of ?m ?b "Fin 0"] r b(1) by blast
  then show ?thesis
    using h r b s n n2 by simp
qed

subsection \<open>C7: the active profile index\<close>

text \<open>
  Claim C7: the active profile index is always in \<open>[0,5)\<close>. Whatever the EEPROM holds,
  after the boot the index is in range; a stored value outside the range has been
  replaced by 0 in memory and in the EEPROM, one inside is kept. An adjustment on the
  Load screen (row 0 highlighted) that returns leaves the index in \<open>[0,4]\<close> whatever it
  was before, and it does return when the index was in range. In every reachable state
  the index is in range and the button handling of the next cycle returns.
\<close>

theorem currentSetting_always_valid:
  "(let m0 = setup_mvm (power_on stored_settings stored_index) in
      0 \<le> currentSetting m0 \<and> currentSetting m0 < 5 \<and>
      (if stored_index < 0 \<or> 5 \<le> stored_index
       then currentSetting m0 = 0 \<and> eeprom_currentSetting m0 = 0
       else currentSetting m0 = stored_index \<and> eeprom_currentSetting m0 = stored_index))
   \<and> (menuItem m = 0 \<longrightarrow> adjustCurrentSettingIndex increase m = Inr m'
        \<longrightarrow> 0 \<le> currentSetting m' \<and> currentSetting m' \<le> 4)
   \<and> (0 \<le> currentSetting m \<and> currentSetting m < 5
        \<longrightarrow> (\<exists>m''. adjustCurrentSettingIndex increase m = Inr m''))
   \<and> (reachable m \<longrightarrow> 0 \<le> currentSetting m \<and> currentSetting m < 5
        \<and> (\<exists>m''. handleButtons b sonar m = Inr m''))"
proof (intro conjI impI)
  show "let m0 = setup_mvm (power_on stored_settings stored_index) in
      0 \<le> currentSetting m0 \<and> currentSetting m0 < 5 \<and>
      (if stored_index < 0 \<or> 5 \<le> stored_index
       then currentSetting m0 = 0 \<and> eeprom_currentSetting m0 = 0
       else currentSetting m0 = stored_index \<and> eeprom_currentSetting m0 = stored_index)"
    by (simp add: setup_mvm_def power_on_def Let_def)
next
  assume "menuItem m = 0" "adjustCurrentSettingIndex increase m = Inr m'"
  then show "0 \<le> currentSetting m'" "currentSetting m' \<le> 4"
    using adjustCurrentSettingIndex_fields by blast+
next
  assume "0 \<le> currentSetting m \<and> currentSetting m < 5"
  then show "\<exists>m''. adjustCurrentSettingIndex increase m = Inr m''"
    by (intro adjustCurrentSettingIndex_total) auto
next
  assume r: "reachable m"
  then have cs: "0 \<le> currentSetting m" "currentSetting m < 5"
    using reachable_inv [OF r] by (simp_all add: mvm_inv_def)
  then show "0 \<le> currentSetting m" "currentSetting m < 5" by auto
  show "\<exists>m''. handleButtons b sonar m = Inr m''"
    using cs by (rule handleButtons_total)
qed

text \<open>Claim C7 on an erased EEPROM whose index record holds 7, and on a boot with index
  4 followed by Right.\<close>

theorem currentSetting_always_valid_witness:
  "currentSetting (setup_mvm (power_on (\<lambda>i. unset_tank) 7)) = 0
   \<and> eeprom_currentSetting (setup_mvm (power_on (\<lambda>i. unset_tank) 7)) = 0
   \<and> menuItem (booted unset_tank 4) = 0
   \<and> adjustCurrentSettingIndex True (booted unset_tank 4) = Inr (booted unset_tank 4)
   \<and> currentSetting (booted unset_tank 4) = 4
   \<and> reachable (booted unset_tank 4)
   \<and> (\<exists>m''. handleButtons (pressed False False False True False) (Fin 0) (booted unset_tank 4) = Inr m'')"
proof -
  have mi: "menuItem (booted unset_tank 4) = 0"
    by (simp add: booted_def setup_mvm_def power_on_def Let_def)
  have cs: "currentSetting (booted unset_tank 4) = 4"
    by (simp add: booted_def setup_mvm_def power_on_def Let_def)
  have adj: "adjustCurrentSettingIndex True (booted unset_tank 4) = Inr (booted unset_tank 4)"
    using index_step(1) [of 4]
    by (simp add: adjustCurrentSettingIndex_def mi cs and_then_def Let_def int_to_float_not_NaN)
  have r: "reachable (booted unset_tank 4)"
    unfolding booted_def by (rule reachable.boot)
  show ?thesis
    using currentSetting_always_valid [of "\<lambda>i. unset_tank" 7 "booted unset_tank 4" True
        "booted unset_tank 4" "pressed False False False True False" "Fin 0"] mi cs adj r
    by (simp add: Let_def)
qed

subsection \<open>C8: edits of the diameter and the target capacity\<close>

text \<open>
  Claim C8 says that after any sequence of edits both fields are \<open>>= 0\<close>, whatever they
  were at the start. An edit writes the field of the highlighted row only. From the
  profile of an erased EEPROM (all three fields NaN), one edit of the diameter leaves the
  target capacity NaN, which is not \<open>>= 0\<close>.
\<close>

theorem edit_leaves_other_field:
  "edits [(1, True)] (Fin 0) (booted unset_tank 0)
     = Inr ((booted unset_tank 0)
              \<lparr>menuItem := 1,
               settings := (settings (booted unset_tank 0))(0 := tank NaN (Fin 10) NaN)\<rparr>)
   \<and> \<not> fle (Fin 0) (targetCapacity (tank NaN (Fin 10) NaN))"
  by (simp add: adjustSetting_def and_then_def settings_at_def booted_fields unset_tank_def
      tank_def round_f32_10 fle_def Let_def)

text \<open>
  Claim C8, amended: an edit of either field resets a NaN to 0, adds 10 or -10 and
  replaces a negative sum by 0 (\<open>edited\<close>); every run of edits returns, and after it each
  of the two fields that was edited at least once, or was \<open>>= 0\<close> at the start, is
  \<open>>= 0\<close>; a field that was never edited keeps its starting value.
\<close>

theorem edited_fields_nonnegative:
  assumes "0 \<le> currentSetting m" "currentSetting m < 5"
  shows "edited increase v =
           (let v0 = (if isnan v then Fin 0 else v);
                v1 = fadd v0 (if increase then Fin 10 else Fin (- 10))
            in if flt v1 (Fin 0) then Fin 0 else v1)
     \<and> (\<exists>m1. adjustSetting increase sonar (m\<lparr>menuItem := 1\<rparr>) = Inr m1
          \<and> diameter (settings m1 (currentSetting m))
              = edited increase (diameter (settings m (currentSetting m))))
     \<and> (\<exists>m2. adjustSetting increase sonar (m\<lparr>menuItem := 2\<rparr>) = Inr m2
          \<and> targetCapacity (settings m2 (currentSetting m))
              = edited increase (targetCapacity (settings m (currentSetting m))))
     \<and> (\<exists>m'. edits ops sonar m = Inr m' \<and> currentSetting m' = currentSetting m
          \<and> ((1 \<in> fst ` set ops \<or> fle (Fin 0) (diameter (settings m (currentSetting m))))
               \<longrightarrow> fle (Fin 0) (diameter (settings m' (currentSetting m))))
          \<and> ((2 \<in> fst ` set ops \<or> fle (Fin 0) (targetCapacity (settings m (currentSetting m))))
               \<longrightarrow> fle (Fin 0) (targetCapacity (settings m' (currentSetting m))))
          \<and> (1 \<notin> fst ` set ops
               \<longrightarrow> diameter (settings m' (currentSetting m)) = diameter (settings m (currentSetting m)))
          \<and> (2 \<notin> fst ` set ops
               \<longrightarrow> targetCapacity (settings m' (currentSetting m))
                   = targetCapacity (settings m (currentSetting m))))"
proof (intro conjI)
  show "edited increase v =
           (let v0 = (if isnan v then Fin 0 else v);
                v1 = fadd v0 (if increase then Fin 10 else Fin (- 10))
            in if flt v1 (Fin 0) then Fin 0 else v1)"
    by (simp add: edited_def)
  show "\<exists>m1. adjustSetting increase sonar (m\<lparr>menuItem := 1\<rparr>) = Inr m1
          \<and> diameter (settings m1 (currentSetting m))
              = edited increase (diameter (settings m (currentSetting m)))"
    using adjustSetting_step [OF assms, of increase sonar 1] by auto
  show "\<exists>m2. adjustSetting increase sonar (m\<lparr>menuItem := 2\<rparr>) = Inr m2
          \<and> targetCapacity (settings m2 (currentSetting m))
              = edited increase (targetCapacity (settings m (currentSetting m)))"
    using adjustSetting_step [OF assms, of increase sonar 2] by auto
  show "\<exists>m'. edits ops sonar m = Inr m' \<and> currentSetting m' = currentSetting m
          \<and> ((1 \<in> fst ` set ops \<or> fle (Fin 0) (diameter (settings m (currentSetting m))))
               \<longrightarrow> fle (Fin 0) (diameter (settings m' (currentSetting m))))
          \<and> ((2 \<in> fst ` set ops \<or> fle (Fin 0) (targetCapacity (settings m (currentSetting m))))
               \<longrightarrow> fle (Fin 0) (targetCapacity (settings m' (currentSetting m))))
          \<and> (1 \<notin> fst ` set ops
               \<longrightarrow> diameter (settings m' (currentSetting m)) = diameter (settings m (currentSetting m)))
          \<and> (2 \<notin> fst ` set ops
               \<longrightarrow> targetCapacity (settings m' (currentSetting m))
                   = targetCapacity (settings m (currentSetting m)))"
    by (rule edits_fields [OF assms])
qed

text \<open>The amended claim C8 from the all-NaN profile: diameter up, capacity down, diameter
  up.\<close>

theorem edited_fields_nonnegative_witness:
  "0 \<le> currentSetting (booted unset_tank 0) \<and> currentSetting (booted unset_tank 0) < 5
   \<and> (1::int) \<in> fst ` set [(1, True), (2, False), (1, True)]
   \<and> (2::int) \<in> fst ` set [(1, True), (2, False), (1, True)]
   \<and> (\<exists>m'. edits [(1, True), (2, False), (1, True)] (Fin 0) (booted unset_tank 0) = Inr m'
         \<and> fle (Fin 0) (diameter (settings m' 0))
         \<and> fle (Fin 0) (targetCapacity (settings m' 0)))
   \<and> edited False NaN = Fin 0 \<and> edited True NaN = Fin 10"
proof -
  have c: "0 \<le> currentSetting (booted unset_tank 0)" "currentSetting (booted unset_tank 0) < 5"
    by (simp_all add: booted_fields)
  have e: "edited False NaN = Fin 0" "edited True NaN = Fin 10"
    by (simp_all add: edited_def round_f32_10 round_f32_minus_10)
  show ?thesis
    using c e
      edited_fields_nonnegative [OF c, of True NaN "Fin 0" "[(1, True), (2, False), (1, True)]"]
    by (auto simp: booted_fields)
qed

subsection \<open>C9: the volume\<close>

text \<open>
  Claim C9: the Main render computes \<open>height = minHeight - sample\<close> and
  \<open>volume = (PI * diameter * height) / 1000\<close>, the diameter entering once, and shows the
  volume with one decimal, followed by \<open>L\<close>. For every valid active index, profile and
  sample: when that volume is not a NaN, the value shown (the volume, or 0 for a negative
  one) converts to the \<^verbatim>\<open>long\<close> \<open>x\<close> with \<open>x * 124\<close> in range, and the target capacity
  converts to a positive \<^verbatim>\<open>long\<close> \<open>c\<close>, the render returns exactly these calls: clear, text
  size 2, cursor at (40, 15), the print of the shown value with one decimal, the print
  of \<open>L\<close>, the frame of the bar and its fill of width \<open>x * 124 / c\<close>, and the flush. For
  \<open>minHeight = 50\<close>, \<open>diameter = 20\<close>, \<open>targetCapacity = 10\<close> and the sample 30 the height
  is 20 and the volume is the binary32 value \<open>2635359 / 2097152\<close>, within \<open>0.00005\<close> of
  \<open>1.2566\<close> and between \<open>1.25\<close> and \<open>1.35\<close>, so a print with one decimal shows \<open>1.3\<close>
  (lemma \<open>printFloat_example\<close> above: the core's \<^verbatim>\<open>printFloat\<close> writes the characters
  \<open>1.3\<close>), and \<open>L\<close> follows.
\<close>

theorem volume_render:
  "(0 \<le> currentSetting m \<and> currentSetting m < 5
      \<and> p = settings m (currentSetting m)
      \<and> height = fsub (minHeight p) distance
      \<and> volume = fdiv (fmul (fmul PI (diameter p)) height) (Fin 1000)
      \<and> \<not> isnan volume
      \<and> shown = (if flt volume (Fin 0) then Fin 0 else volume)
      \<and> float_to_long shown = Inr x \<and> x * 124 \<le> LONG_MAX
      \<and> float_to_long (targetCapacity p) = Inr c \<and> 0 < c
     \<longrightarrow> updateMainScreen distance m
           = Inr [ClearDisplay, SetTextSize 2, SetCursor 40 15,
                  Print_float shown 1, Print_str '' L'',
                  DrawRect 2 43 124 8 WHITE,
                  FillRect 2 43 (long_to_int (x * 124 div c)) 8 WHITE, Display])
   \<and> fsub (Fin 50) (Fin 30) = Fin 20
   \<and> fdiv (fmul (fmul PI (Fin 20)) (Fin 20)) (Fin 1000) = Fin (2635359 / 2097152)
   \<and> \<bar>2635359 / 2097152 - 1.2566\<bar> < (0.00005 :: real)
   \<and> (1.25 :: real) \<le> 2635359 / 2097152 \<and> 2635359 / 2097152 < (1.35 :: real)
   \<and> updateMainScreen (Fin 30) (booted (tank (Fin 50) (Fin 20) (Fin 10)) 0)
       = Inr [ClearDisplay, SetTextSize 2, SetCursor 40 15,
              Print_float (Fin (2635359 / 2097152)) 1, Print_str '' L'',
              DrawRect 2 43 124 8 WHITE, FillRect 2 43 12 8 WHITE, Display]"
proof (intro conjI impI)
  assume a: "0 \<le> currentSetting m \<and> currentSetting m < 5
      \<and> p = settings m (currentSetting m)
      \<and> height = fsub (minHeight p) distance
      \<and> volume = fdiv (fmul (fmul PI (diameter p)) height) (Fin 1000)
      \<and> \<not> isnan volume
      \<and> shown = (if flt volume (Fin 0) then Fin 0 else volume)
      \<and> float_to_long shown = Inr x \<and> x * 124 \<le> LONG_MAX
      \<and> float_to_long (targetCapacity p) = Inr c \<and> 0 < c"
  then have v: "volume = volume_of (settings m (currentSetting m)) distance"
    by (simp add: volume_of_def)
  have "\<not> flt shown (Fin 0)" using a by auto
  then have x: "0 \<le> x" using a float_to_long_nonneg by blast
  have c: "c \<le> LONG_MAX" using a float_to_long_range by blast
  have mp: "arduino_map x 0 c 0 124 = Inr (x * 124 div c)"
    using x c a by (intro arduino_map_bar) auto
  show "updateMainScreen distance m
           = Inr [ClearDisplay, SetTextSize 2, SetCursor 40 15,
                  Print_float shown 1, Print_str '' L'',
                  DrawRect 2 43 124 8 WHITE,
                  FillRect 2 43 (long_to_int (x * 124 div c)) 8 WHITE, Display]"
    using a v mp by (auto simp: updateMainScreen_unfold Let_def and_then_def)
next
  show "fsub (Fin 50) (Fin 30) = Fin 20" by (rule example_height)
  show "fdiv (fmul (fmul PI (Fin 20)) (Fin 20)) (Fin 1000) = Fin (2635359 / 2097152)"
    by (simp only: example_PI_diameter example_product example_quotient)
  show "\<bar>2635359 / 2097152 - 1.2566\<bar> < (0.00005 :: real)" by simp
  show "(1.25 :: real) \<le> 2635359 / 2097152" by simp
  show "2635359 / 2097152 < (1.35 :: real)" by simp
  show "updateMainScreen (Fin 30) (booted (tank (Fin 50) (Fin 20) (Fin 10)) 0)
       = Inr [ClearDisplay, SetTextSize 2, SetCursor 40 15,
              Print_float (Fin (2635359 / 2097152)) 1, Print_str '' L'',
              DrawRect 2 43 124 8 WHITE, FillRect 2 43 12 8 WHITE, Display]"
  proof -
    have t: "targetCapacity (tank (Fin 50) (Fin 20) (Fin 10)) = Fin 10"
      by (simp add: tank_def)
    show ?thesis
      by (simp add: updateMainScreen_unfold booted_fields volume_of_example t Let_def and_then_def
          float_to_long_def truncate_real_def LONG_MIN_def LONG_MAX_def
          arduino_map_def in_long_def c_quot_def long_to_int_def)
  qed
qed

text \<open>Claim C9 at the example state, each premise of the general part discharged there:
  the shown value converts to 1, the capacity to 10, and the fill is 12 wide.\<close>

theorem volume_render_witness:
  "0 \<le> currentSetting (booted (tank (Fin 50) (Fin 20) (Fin 10)) 0)
   \<and> currentSetting (booted (tank (Fin 50) (Fin 20) (Fin 10)) 0) < 5
   \<and> tank (Fin 50) (Fin 20) (Fin 10)
       = settings (booted (tank (Fin 50) (Fin 20) (Fin 10)) 0)
           (currentSetting (booted (tank (Fin 50) (Fin 20) (Fin 10)) 0))
   \<and> Fin 20 = fsub (minHeight (tank (Fin 50) (Fin 20) (Fin 10))) (Fin 30)
   \<and> Fin (2635359 / 2097152)
       = fdiv (fmul (fmul PI (diameter (tank (Fin 50) (Fin 20) (Fin 10)))) (Fin 20)) (Fin 1000)
   \<and> \<not> isnan (Fin (2635359 / 2097152))
   \<and> \<not> flt (Fin (2635359 / 2097152)) (Fin 0)
   \<and> float_to_long (Fin (2635359 / 2097152)) = Inr 1 \<and> (1::int) * 124 \<le> LONG_MAX
   \<and> float_to_long (targetCapacity (tank (Fin 50) (Fin 20) (Fin 10))) = Inr 10 \<and> (0::int) < 10
   \<and> long_to_int (1 * 124 div 10) = 12
   \<and> updateMainScreen (Fin 30) (booted (tank (Fin 50) (Fin 20) (Fin 10)) 0)
       = Inr [ClearDisplay, SetTextSize 2, SetCursor 40 15,
              Print_float (Fin (2635359 / 2097152)) 1, Print_str '' L'',
              DrawRect 2 43 124 8 WHITE,
              FillRect 2 43 (long_to_int (1 * 124 div 10)) 8 WHITE, Display]"
proof -
  let ?t = "tank (Fin 50) (Fin 20) (Fin 10)"
  let ?m = "booted ?t 0"
  let ?v = "Fin (2635359 / 2097152)"
  have c: "0 \<le> currentSetting ?m" "currentSetting ?m < 5"
    by (simp_all add: booted_fields)
  have p: "?t = settings ?m (currentSetting ?m)"
    by (simp add: booted_fields)
  have f: "minHeight ?t = Fin 50" "diameter ?t = Fin 20" "targetCapacity ?t = Fin 10"
    by (simp_all add: tank_def)
  have h: "Fin 20 = fsub (minHeight ?t) (Fin 30)"
    by (simp only: f example_height)
  have v: "?v = fdiv (fmul (fmul PI (diameter ?t)) (Fin 20)) (Fin 1000)"
    by (simp only: f example_PI_diameter example_product example_quotient)
  have n: "\<not> isnan ?v" "\<not> flt ?v (Fin 0)" by simp_all
  have s: "?v = (if flt ?v (Fin 0) then Fin 0 else ?v)" by simp
  have x: "float_to_long ?v = Inr 1" "(1::int) * 124 \<le> LONG_MAX"
    by (simp_all add: float_to_long_def truncate_real_def LONG_MIN_def LONG_MAX_def)
  have k: "float_to_long (targetCapacity ?t) = Inr 10" "(0::int) < 10"
    by (simp_all add: f float_to_long_def truncate_real_def LONG_MIN_def LONG_MAX_def)
  have w: "long_to_int (1 * 124 div 10) = 12" by (simp add: long_to_int_def)
  have "updateMainScreen (Fin 30) ?m
       = Inr [ClearDisplay, SetTextSize 2, SetCursor 40 15,
              Print_float ?v 1, Print_str '' L'',
              DrawRect 2 43 124 8 WHITE,
              FillRect 2 43 (long_to_int (1 * 124 div 10)) 8 WHITE, Display]"
    using volume_render [of ?m ?t "Fin 20" "Fin 30" ?v ?v 1 10] c p h v n(1) s x k
    by blast
  then show ?thesis
    using c p h v n x k w by blast
qed

subsection \<open>C10: a NaN volume\<close>

text \<open>
  Claim C10 names the text shown for a NaN volume as "please configure tank". On the
  profile of an erased EEPROM (NaN diameter) the render prints "please set up tank".
\<close>

theorem NaN_prompt_text:
  "isnan (diameter unset_tank)
   \<and> updateMainScreen (Fin 30) (booted unset_tank 0)
       = Inr [ClearDisplay, SetTextSize 1, SetCursor 0 0, Println_str ''please set up tank'']
   \<and> ''please set up tank'' \<noteq> ''please configure tank''"
proof -
  have d: "isnan (diameter unset_tank)"
    by (simp add: unset_tank_def tank_def)
  then have "isnan (volume_of unset_tank (Fin 30))"
    by (intro volume_of_NaN) simp
  then show ?thesis
    using d by (simp add: updateMainScreen_unfold booted_fields Let_def)
qed

text \<open>
  Claim C10, amended: for every valid active index, every profile and every sensor
  sample, if the computed volume is NaN (in particular when the diameter, the minimum
  height or the sample is NaN) the Main render consists of the text "please set up tank"
  at the top left in size 1: no number is printed, no bar is drawn, and no operation is
  undefined. (The sketch's own \<^verbatim>\<open>pingSonar\<close> never returns a NaN, lemma
  \<open>pingSonar_not_NaN\<close>; the theorem covers every \<^verbatim>\<open>float\<close> all the same.)
\<close>

theorem NaN_volume_renders_prompt:
  assumes "0 \<le> currentSetting m" "currentSetting m < 5"
    and "isnan (volume_of (settings m (currentSetting m)) distance)
         \<or> isnan (diameter (settings m (currentSetting m)))
         \<or> isnan (minHeight (settings m (currentSetting m)))
         \<or> isnan distance"
  shows "updateMainScreen distance m
           = Inr [ClearDisplay, SetTextSize 1, SetCursor 0 0, Println_str ''please set up tank'']"
proof -
  have "isnan (volume_of (settings m (currentSetting m)) distance)"
    using assms(3) volume_of_NaN by blast
  then show ?thesis
    using assms(1,2) by (simp add: updateMainScreen_unfold Let_def)
qed

text \<open>The amended claim C10 on the all-NaN profile with the sample 30.\<close>

theorem NaN_volume_renders_prompt_witness:
  "0 \<le> currentSetting (booted unset_tank 0) \<and> currentSetting (booted unset_tank 0) < 5
   \<and> isnan (diameter (settings (booted unset_tank 0) (currentSetting (booted unset_tank 0))))
   \<and> updateMainScreen (Fin 30) (booted unset_tank 0)
       = Inr [ClearDisplay, SetTextSize 1, SetCursor 0 0, Println_str ''please set up tank'']"
proof -
  have c: "0 \<le> currentSetting (booted unset_tank 0)" "currentSetting (booted unset_tank 0) < 5"
    by (simp_all add: booted_fields)
  have d: "isnan (diameter (settings (booted unset_tank 0) (currentSetting (booted unset_tank 0))))"
    by (simp add: booted_fields unset_tank_def tank_def)
  show ?thesis
    using c d NaN_volume_renders_prompt [OF c, of "Fin 30"] by blast
qed

end
